theory Spec2Isabelle
  imports Main "HOL-Library.Option_ord"
begin

section \<open>Data model (kbox\_app/models.py)\<close>

text \<open>
  A point in time is an integer number of microseconds since the epoch, in local time
  (the resolution of Python's \<open>datetime\<close>); a time of day is the number of
  microseconds since midnight. Rows carry their primary key; a foreign key is the key
  of the row it points to, a nullable one an option. Each table is the list of its rows
  in storage order.
\<close>

type_synonym datetime = int
type_synonym time_of_day = int

record room =
  r_id :: nat
  r_code :: string
  r_is_active :: bool

record faculty =
  f_id :: nat
  f_school_id :: string
  f_full_name :: "string option"
  f_is_active :: bool

record rfid_registration =
  rf_id :: nat
  rf_rfid_code :: string
  rf_faculty :: nat
  rf_room :: nat
  rf_is_active :: bool

record room_schedule =
  s_id :: nat
  s_room :: nat
  s_semester :: string
  s_day_of_week :: string
  s_start_time :: time_of_day
  s_end_time :: time_of_day
  s_faculty :: "nat option"
  s_is_active :: bool
  s_updated_at :: datetime

record transaction_log =
  t_id :: nat
  t_rfid :: "nat option"
  t_room :: "nat option"
  t_faculty_name :: string
  t_room_code :: string
  t_rfid_code :: string
  t_academic_year :: string
  t_semester :: string
  t_open_time :: "datetime option"
  t_close_time :: "datetime option"
  t_access_granted :: bool
  t_denial_reason :: "string option"
  t_schedule :: "nat option"

record system_settings =
  current_academic_year :: string
  current_semester :: string

record manual_door_log =
  m_id :: nat
  m_room :: nat
  m_staff_user :: "nat option"
  m_action :: string
  m_timestamp :: datetime
  m_notes :: string

record esp32_device =
  d_id :: nat
  d_device_name :: string
  d_device_id :: string
  d_room :: "nat option"
  d_ip_address :: "string option"
  d_last_heartbeat :: "datetime option"
  d_is_active :: bool
  d_firmware_version :: string
  d_created_at :: datetime
  d_updated_at :: datetime

text \<open>
  The database: one list per table; \<open>settings\<close> is the row of SystemSettings with
  primary key 1, absent until \<open>get_current_term\<close> first creates it.
\<close>

record db =
  rooms :: "room list"
  faculties :: "faculty list"
  rfids :: "rfid_registration list"
  schedules :: "room_schedule list"
  logs :: "transaction_log list"
  settings :: "system_settings option"
  manual_logs :: "manual_door_log list"
  devices :: "esp32_device list"

section \<open>Python and Django primitives\<close>

text \<open>Truthiness of a request parameter: \<open>None\<close> and the empty string are falsy.\<close>

definition truthy :: "string option \<Rightarrow> bool" where
  "truthy p = (case p of None \<Rightarrow> False | Some s \<Rightarrow> s \<noteq> [])"

text \<open>\<open>str.split(',')\<close>: the pieces between commas, at least one piece.\<close>

fun split_comma :: "string \<Rightarrow> string list" where
  "split_comma [] = [[]]"
| "split_comma (c # cs) =
     (if c = CHR '','' then [] # split_comma cs
      else (case split_comma cs of
              [] \<Rightarrow> [[c]]
            | p # ps \<Rightarrow> (c # p) # ps))"

text \<open>\<open>str.strip()\<close> on ASCII text: drops leading and trailing white space.\<close>

definition is_space :: "char \<Rightarrow> bool" where
  "is_space c = (c \<in> set [CHR '' '', CHR 0x09, CHR 0x0A, CHR 0x0B, CHR 0x0C, CHR 0x0D,
                            CHR 0x1C, CHR 0x1D, CHR 0x1E, CHR 0x1F])"

definition strip :: "string \<Rightarrow> string" where
  "strip s = rev (dropWhile is_space (rev (dropWhile is_space s)))"

text \<open>\<open>str.lower()\<close>, \<open>str.upper()\<close> and \<open>str.capitalize()\<close> on ASCII text.\<close>

definition lower_char :: "char \<Rightarrow> char" where
  "lower_char c =
     (case map_of (zip ''ABCDEFGHIJKLMNOPQRSTUVWXYZ'' ''abcdefghijklmnopqrstuvwxyz'') c of
        None \<Rightarrow> c | Some l \<Rightarrow> l)"

definition upper_char :: "char \<Rightarrow> char" where
  "upper_char c =
     (case map_of (zip ''abcdefghijklmnopqrstuvwxyz'' ''ABCDEFGHIJKLMNOPQRSTUVWXYZ'') c of
        None \<Rightarrow> c | Some u \<Rightarrow> u)"

definition lower :: "string \<Rightarrow> string" where
  "lower s = map lower_char s"

definition capitalize :: "string \<Rightarrow> string" where
  "capitalize s = (case s of [] \<Rightarrow> [] | c # cs \<Rightarrow> upper_char c # map lower_char cs)"

text \<open>The calendar of a point in time: 1970-01-01 was a Thursday.\<close>

definition usec_per_second :: int where
  "usec_per_second = 1000000"

definition usec_per_day :: int where
  "usec_per_day = 86400 * usec_per_second"

definition time_of :: "datetime \<Rightarrow> time_of_day" where
  "time_of now = now mod usec_per_day"

definition weekday :: "datetime \<Rightarrow> nat" where
  "weekday now = nat ((now div usec_per_day + 3) mod 7)"

definition day_names :: "string list" where
  "day_names = [''monday'', ''tuesday'', ''wednesday'', ''thursday'', ''friday'',
                ''saturday'', ''sunday'']"

text \<open>\<open>now.strftime("%A").lower()\<close>\<close>

definition current_day_full :: "datetime \<Rightarrow> string" where
  "current_day_full now = day_names ! weekday now"

text \<open>\<open>t.strftime('%I:%M %p')\<close>: twelve-hour clock, two digits each, AM or PM.\<close>

definition two_digits :: "nat \<Rightarrow> string" where
  "two_digits n = [''0123456789'' ! ((n div 10) mod 10), ''0123456789'' ! (n mod 10)]"

definition strftime_I_M_p :: "time_of_day \<Rightarrow> string" where
  "strftime_I_M_p t =
     (let h = nat (t div (3600 * usec_per_second));
          m = nat ((t div (60 * usec_per_second)) mod 60);
          h12 = (if h mod 12 = 0 then 12 else h mod 12)
      in two_digits h12 @ '':'' @ two_digits m @ '' '' @ (if h < 12 then ''AM'' else ''PM''))"

text \<open>\<open>timedelta(seconds=n)\<close>\<close>

definition timedelta_seconds :: "int \<Rightarrow> int" where
  "timedelta_seconds n = n * usec_per_second"

text \<open>
  \<open>SystemSettings.get_current_term\<close>: \<open>get_or_create(pk=1)\<close>, creating the row
  with the model's defaults.
\<close>

definition default_settings :: system_settings where
  "default_settings = \<lparr>current_academic_year = ''2025-2026'', current_semester = ''1st''\<rparr>"

definition get_current_term :: "db \<Rightarrow> system_settings \<times> db" where
  "get_current_term d =
     (case settings d of
        Some s \<Rightarrow> (s, d)
      | None \<Rightarrow> (default_settings, d\<lparr>settings := Some default_settings\<rparr>))"

section \<open>Device liveness (ESP32Device.is\_online)\<close>

definition is_online :: "datetime \<Rightarrow> esp32_device \<Rightarrow> bool" where
  "is_online now dev =
     (case d_last_heartbeat dev of
        None \<Rightarrow> False
      | Some hb \<Rightarrow> (let time_threshold = now - timedelta_seconds 30 in hb \<ge> time_threshold))"

section \<open>Heartbeat (views.esp32\_heartbeat)\<close>

text \<open>
  The request: the \<open>device_id\<close> and \<open>firmware_version\<close> of the query string and of
  the form body, the two fields of the JSON body (\<open>None\<close> when the body is empty or is
  not JSON), and the two address headers.
\<close>

record heartbeat_request =
  get_device_id :: "string option"
  get_firmware_version :: "string option"
  post_device_id :: "string option"
  post_firmware_version :: "string option"
  json_body :: "(string option \<times> string option) option"
  http_x_forwarded_for :: "string option"
  remote_addr :: "string option"

datatype heartbeat_response =
  HbMissingDeviceId
  | HbNotRegistered string
  | HbServerError
  | HbReceived string "nat option" datetime

definition request_device :: "heartbeat_request \<Rightarrow> string option \<times> string option" where
  "request_device rq =
     (let m1 = (get_device_id rq, get_firmware_version rq);
          m2 = (if \<not> truthy (fst m1) then (post_device_id rq, post_firmware_version rq) else m1);
          m3 = (if \<not> truthy (fst m2)
                then (case json_body rq of None \<Rightarrow> m2 | Some data \<Rightarrow> data)
                else m2)
      in m3)"

definition first_piece :: "string \<Rightarrow> string" where
  "first_piece s = (case split_comma s of [] \<Rightarrow> [] | p # ps \<Rightarrow> p)"

definition request_ip :: "heartbeat_request \<Rightarrow> string option" where
  "request_ip rq =
     (case http_x_forwarded_for rq of
        None \<Rightarrow> remote_addr rq
      | Some x_forwarded_for \<Rightarrow>
          (if x_forwarded_for \<noteq> [] then Some (strip (first_piece x_forwarded_for))
           else remote_addr rq))"

text \<open>
  \<open>device.save()\<close> writes every column of the row with the device's primary key and
  refreshes the \<open>auto_now\<close> column \<open>updated_at\<close>;
  \<open>device.save(update_fields=['last_heartbeat', 'ip_address'])\<close> writes those two
  columns only.
\<close>

definition save_device :: "datetime \<Rightarrow> esp32_device \<Rightarrow> esp32_device list \<Rightarrow> esp32_device list" where
  "save_device now dev ds =
     map (\<lambda>row. if d_id row = d_id dev then dev\<lparr>d_updated_at := now\<rparr> else row) ds"

definition save_device_heartbeat_fields :: "esp32_device \<Rightarrow> esp32_device list \<Rightarrow> esp32_device list" where
  "save_device_heartbeat_fields dev ds =
     map (\<lambda>row. if d_id row = d_id dev
                 then row\<lparr>d_last_heartbeat := d_last_heartbeat dev, d_ip_address := d_ip_address dev\<rparr>
                 else row) ds"

definition esp32_heartbeat :: "db \<Rightarrow> datetime \<Rightarrow> heartbeat_request \<Rightarrow> db \<times> heartbeat_response" where
  "esp32_heartbeat d now rq =
     (let (device_id, firmware_version) = request_device rq in
      if \<not> truthy device_id then (d, HbMissingDeviceId)
      else
        (case filter (\<lambda>row. d_device_id row = the device_id \<and> d_is_active row) (devices d) of
           [] \<Rightarrow> (d, HbNotRegistered (the device_id))
         | [device] \<Rightarrow>
             (let device1 = device\<lparr>d_last_heartbeat := Some now\<rparr>;
                  device2 = device1\<lparr>d_ip_address := request_ip rq\<rparr>
              in if truthy firmware_version \<and> the firmware_version \<noteq> d_firmware_version device2
                 then
                   (let device3 = device2\<lparr>d_firmware_version := the firmware_version\<rparr>
                    in (d\<lparr>devices := save_device now device3 (devices d)\<rparr>,
                        HbReceived (d_device_name device3) (d_room device3) now))
                 else
                   (d\<lparr>devices := save_device_heartbeat_fields device2 (devices d)\<rparr>,
                    HbReceived (d_device_name device2) (d_room device2) now))
         | _ \<Rightarrow> (d, HbServerError)))"

section \<open>Query helpers\<close>

text \<open>
  \<open>order_by('-key').first()\<close>: the row with the greatest key, the first such row in
  storage order when several share it; a null key sorts below every value.
\<close>

fun first_desc :: "('a \<Rightarrow> 'k::linorder) \<Rightarrow> 'a list \<Rightarrow> 'a option" where
  "first_desc key [] = None"
| "first_desc key (x # xs) =
     (case first_desc key xs of
        None \<Rightarrow> Some x
      | Some y \<Rightarrow> if key x < key y then Some y else Some x)"

text \<open>The primary key the database gives a new row: one not in use.\<close>

definition fresh_id :: "nat list \<Rightarrow> nat" where
  "fresh_id ids = Suc (fold max ids 0)"

definition room_code_of :: "db \<Rightarrow> nat \<Rightarrow> string option" where
  "room_code_of d rid = map_option r_code (find (\<lambda>r. r_id r = rid) (rooms d))"

definition faculty_full_name :: "db \<Rightarrow> nat \<Rightarrow> string option" where
  "faculty_full_name d fid =
     (case find (\<lambda>f. f_id f = fid) (faculties d) of
        None \<Rightarrow> None
      | Some f \<Rightarrow> f_full_name f)"

section \<open>Command relay (views\_management.manual\_door\_trigger, views.manual\_trigger\_api)\<close>

text \<open>
  The staff request: the HTTP method, the posted \<open>room_id\<close> (\<open>None\<close> when it is
  missing, empty or not a number: in each case nothing is written), the posted action
  and notes, and the signed-in user.
\<close>

record trigger_request =
  tr_method :: string
  tr_room_id :: "nat option"
  tr_action :: "string option"
  tr_notes :: string
  tr_user :: nat

datatype trigger_outcome =
  TrNotPost
  | TrInvalidRequest
  | TrRoomNotFound
  | TrCommandSent manual_door_log

definition manual_door_trigger :: "db \<Rightarrow> datetime \<Rightarrow> trigger_request \<Rightarrow> db \<times> trigger_outcome" where
  "manual_door_trigger d now rq =
     (if tr_method rq \<noteq> ''POST'' then (d, TrNotPost)
      else
        (case (tr_room_id rq, tr_action rq) of
           (Some room_id, Some act) \<Rightarrow>
             (if act \<notin> set [''open'', ''close''] then (d, TrInvalidRequest)
              else
                (case find (\<lambda>r. r_id r = room_id \<and> r_is_active r) (rooms d) of
                   None \<Rightarrow> (d, TrRoomNotFound)
                 | Some room \<Rightarrow>
                     (let manual_log =
                            \<lparr>m_id = fresh_id (map m_id (manual_logs d)),
                             m_room = r_id room,
                             m_staff_user = Some (tr_user rq),
                             m_action = act,
                             m_timestamp = now,
                             m_notes = tr_notes rq\<rparr>
                      in (d\<lparr>manual_logs := manual_logs d @ [manual_log]\<rparr>,
                          TrCommandSent manual_log))))
         | _ \<Rightarrow> (d, TrInvalidRequest)))"

datatype trigger_response =
  TgMissingRoom
  | TgNoPending
  | TgTrigger manual_door_log

definition recent_commands :: "db \<Rightarrow> datetime \<Rightarrow> string \<Rightarrow> manual_door_log list" where
  "recent_commands d now room_code =
     (let recent_time = now - timedelta_seconds 5
      in filter (\<lambda>m. room_code_of d (m_room m) = Some room_code \<and> m_timestamp m \<ge> recent_time)
           (manual_logs d))"

definition manual_trigger_api :: "db \<Rightarrow> datetime \<Rightarrow> string option \<Rightarrow> db \<times> trigger_response" where
  "manual_trigger_api d now room_code =
     (case room_code of
        None \<Rightarrow> (d, TgMissingRoom)
      | Some rc \<Rightarrow>
          (if rc = [] then (d, TgMissingRoom)
           else
             (case first_desc m_timestamp (recent_commands d now rc) of
                Some latest_operation \<Rightarrow> (d, TgTrigger latest_operation)
              | None \<Rightarrow> (d, TgNoPending))))"

section \<open>Staleness check (views\_api.esp32\_check\_updates)\<close>

text \<open>
  What Django's \<open>parse_datetime\<close> does with a string: it raises on a well-formed
  but impossible date, returns \<open>None\<close> on text that is not a timestamp, or returns
  the point in time. The parser is a parameter of the model.
\<close>

datatype parsed = ParseRaises | ParseNone | Parsed datetime

datatype updates_response =
  UpMissingRoom
  | UpRoomNotFound string
  | UpSuccess bool string string

definition updated_schedules :: "db \<Rightarrow> room \<Rightarrow> string \<Rightarrow> datetime \<Rightarrow> room_schedule list" where
  "updated_schedules d room semester last_sync_dt =
     filter (\<lambda>s. s_room s = r_id room \<and> s_semester s = semester \<and> s_updated_at s > last_sync_dt)
       (schedules d)"

definition esp32_check_updates ::
  "(string \<Rightarrow> parsed) \<Rightarrow> db \<Rightarrow> string option \<Rightarrow> string option \<Rightarrow> db \<times> updates_response" where
  "esp32_check_updates parse_datetime d room_code last_sync =
     (case room_code of
        None \<Rightarrow> (d, UpMissingRoom)
      | Some rc \<Rightarrow>
          (if rc = [] then (d, UpMissingRoom)
           else
             (case find (\<lambda>r. r_code r = rc \<and> r_is_active r) (rooms d) of
                None \<Rightarrow> (d, UpRoomNotFound rc)
              | Some room \<Rightarrow>
                  (let (system_settings, d1) = get_current_term d;
                       needs_update =
                         (if truthy last_sync
                          then (case parse_datetime (the last_sync) of
                                  Parsed last_sync_dt \<Rightarrow>
                                    length (updated_schedules d1 room
                                              (current_semester system_settings) last_sync_dt) > 0
                                | ParseNone \<Rightarrow> True
                                | ParseRaises \<Rightarrow> True)
                          else True)
                   in (d1, UpSuccess needs_update (current_semester system_settings)
                             (current_academic_year system_settings))))))"

section \<open>Badge swipe (views.rfid\_swipe)\<close>

record swipe_response =
  resp_http_status :: nat
  resp_status :: string
  resp_access_granted :: bool
  resp_action :: string
  resp_faculty :: "string option"
  resp_message :: string
  resp_denial_reason :: string

text \<open>The day names a stored day may carry to match today: full, abbreviated, capitalised.\<close>

definition day_matches :: "datetime \<Rightarrow> string list" where
  "day_matches now =
     [current_day_full now, take 3 (current_day_full now), capitalize (current_day_full now)]"

definition days_list :: "room_schedule \<Rightarrow> string list" where
  "days_list sched = map (\<lambda>day. lower (strip day)) (split_comma (s_day_of_week sched))"

definition day_match :: "datetime \<Rightarrow> room_schedule \<Rightarrow> bool" where
  "day_match now sched = list_ex (\<lambda>day. day \<in> set (days_list sched)) (day_matches now)"

definition time_match :: "datetime \<Rightarrow> room_schedule \<Rightarrow> bool" where
  "time_match now sched =
     (s_start_time sched \<le> time_of now \<and> time_of now \<le> s_end_time sched)"

definition matching_schedules :: "db \<Rightarrow> room \<Rightarrow> rfid_registration \<Rightarrow> string \<Rightarrow> room_schedule list" where
  "matching_schedules d room rfid semester =
     filter (\<lambda>s. s_room s = r_id room \<and> s_faculty s = Some (rf_faculty rfid) \<and>
                 s_semester s = semester \<and> s_is_active s) (schedules d)"

definition matching_schedules_filtered ::
  "db \<Rightarrow> datetime \<Rightarrow> room \<Rightarrow> rfid_registration \<Rightarrow> string \<Rightarrow> room_schedule list" where
  "matching_schedules_filtered d now room rfid semester =
     filter (\<lambda>schedule. day_match now schedule \<and> time_match now schedule)
       (matching_schedules d room rfid semester)"

definition outside_scheduled_time :: "datetime \<Rightarrow> string" where
  "outside_scheduled_time now =
     ''Outside of scheduled time (Current: '' @ strftime_I_M_p (time_of now) @ '')''"

definition no_schedule_today :: "datetime \<Rightarrow> string \<Rightarrow> string" where
  "no_schedule_today now semester =
     ''No schedule for '' @ capitalize (current_day_full now) @ '' in '' @ semester @ '' semester''"

definition denial_reason_of :: "db \<Rightarrow> datetime \<Rightarrow> room \<Rightarrow> rfid_registration \<Rightarrow> string \<Rightarrow> string" where
  "denial_reason_of d now room rfid semester =
     (let day_only_match = list_ex (day_match now) (matching_schedules d room rfid semester)
      in if day_only_match then outside_scheduled_time now
         else no_schedule_today now semester)"

text \<open>The open log of a credential, room and term: the latest by \<open>open_time\<close>.\<close>

definition is_open_log :: "nat \<Rightarrow> nat \<Rightarrow> string \<Rightarrow> string \<Rightarrow> transaction_log \<Rightarrow> bool" where
  "is_open_log rfid_pk room_pk academic_year semester t =
     (t_rfid t = Some rfid_pk \<and> t_room t = Some room_pk \<and>
      t_academic_year t = academic_year \<and> t_semester t = semester \<and>
      t_close_time t = None \<and> t_access_granted t)"

definition open_log_of :: "db \<Rightarrow> rfid_registration \<Rightarrow> room \<Rightarrow> string \<Rightarrow> string \<Rightarrow> transaction_log option" where
  "open_log_of d rfid room academic_year semester =
     first_desc t_open_time
       (filter (is_open_log (rf_id rfid) (r_id room) academic_year semester) (logs d))"

text \<open>
  \<open>TransactionLog.objects.create(...)\<close> appends the row under a new primary key;
  \<open>open_log.save()\<close> writes the row with the log's primary key.
\<close>

definition create_log :: "transaction_log \<Rightarrow> transaction_log list \<Rightarrow> transaction_log list" where
  "create_log row ls = ls @ [row\<lparr>t_id := fresh_id (map t_id ls)\<rparr>]"

definition save_log :: "transaction_log \<Rightarrow> transaction_log list \<Rightarrow> transaction_log list" where
  "save_log row ls = map (\<lambda>t. if t_id t = t_id row then row else t) ls"

definition error_response :: "nat \<Rightarrow> string option \<Rightarrow> string \<Rightarrow> string \<Rightarrow> swipe_response" where
  "error_response code fac msg reason =
     \<lparr>resp_http_status = code, resp_status = ''error'', resp_access_granted = False,
      resp_action = [], resp_faculty = fac, resp_message = msg, resp_denial_reason = reason\<rparr>"

definition rfid_swipe :: "db \<Rightarrow> datetime \<Rightarrow> string option \<Rightarrow> string option \<Rightarrow> db \<times> swipe_response" where
  "rfid_swipe d now code room_code =
     (if \<not> truthy code \<or> \<not> truthy room_code
      then (d, error_response 400 (Some []) ''Missing 'code' or 'room' parameter''
                 ''Invalid request - missing required parameters'')
      else
        (case find (\<lambda>r. rf_rfid_code r = the code) (rfids d) of
           None \<Rightarrow>
             (d, error_response 404 (Some []) ''RFID card not registered''
                   ''Card UID not found in database'')
         | Some rfid \<Rightarrow>
             (if \<not> rf_is_active rfid
              then (d, error_response 403 (faculty_full_name d (rf_faculty rfid))
                         ''RFID card is disabled'' ''This card has been deactivated'')
              else
                (case find (\<lambda>r. r_code r = the room_code) (rooms d) of
                   None \<Rightarrow>
                     (d, error_response 404 (faculty_full_name d (rf_faculty rfid))
                           ''Unknown room code''
                           (''Room '' @ the room_code @ '' not found in system''))
                 | Some room \<Rightarrow>
                     (if \<not> r_is_active room
                      then (d, error_response 403 (faculty_full_name d (rf_faculty rfid))
                                 ''Room is disabled''
                                 (''Room '' @ the room_code @ '' is currently inactive''))
                      else
                        (let (system_settings, d1) = get_current_term d;
                             semester = current_semester system_settings;
                             academic_year = current_academic_year system_settings;
                             filtered = matching_schedules_filtered d1 now room rfid semester;
                             access_granted = (length filtered > 0);
                             active_schedule =
                               (case filtered of [] \<Rightarrow> None | schedule # _ \<Rightarrow> Some schedule);
                             open_log = open_log_of d1 rfid room academic_year semester
                         in if access_granted
                            then
                              (case open_log of
                                 Some l \<Rightarrow>
                                   (d1\<lparr>logs := save_log (l\<lparr>t_close_time := Some now\<rparr>) (logs d1)\<rparr>,
                                    \<lparr>resp_http_status = 200, resp_status = ''ok'',
                                     resp_access_granted = True, resp_action = ''return_key'',
                                     resp_faculty = faculty_full_name d1 (rf_faculty rfid),
                                     resp_message = ''Key returned successfully'',
                                     resp_denial_reason = []\<rparr>)
                               | None \<Rightarrow>
                                   (d1\<lparr>logs := create_log
                                        \<lparr>t_id = 0, t_rfid = Some (rf_id rfid), t_room = Some (r_id room),
                                         t_faculty_name = [], t_room_code = [], t_rfid_code = [],
                                         t_academic_year = academic_year, t_semester = semester,
                                         t_open_time = Some now, t_close_time = None,
                                         t_access_granted = True, t_denial_reason = None,
                                         t_schedule = map_option s_id active_schedule\<rparr>
                                        (logs d1)\<rparr>,
                                    \<lparr>resp_http_status = 200, resp_status = ''ok'',
                                     resp_access_granted = True, resp_action = ''borrow_key'',
                                     resp_faculty = faculty_full_name d1 (rf_faculty rfid),
                                     resp_message = ''Access granted - Key released'',
                                     resp_denial_reason = []\<rparr>))
                            else
                              (let denial_reason = denial_reason_of d1 now room rfid semester
                               in (d1\<lparr>logs := create_log
                                        \<lparr>t_id = 0, t_rfid = Some (rf_id rfid), t_room = Some (r_id room),
                                         t_faculty_name = [], t_room_code = [], t_rfid_code = [],
                                         t_academic_year = academic_year, t_semester = semester,
                                         t_open_time = Some now, t_close_time = None,
                                         t_access_granted = False,
                                         t_denial_reason = Some denial_reason,
                                         t_schedule = None\<rparr>
                                        (logs d1)\<rparr>,
                                   \<lparr>resp_http_status = 200, resp_status = ''error'',
                                    resp_access_granted = False, resp_action = [],
                                    resp_faculty = faculty_full_name d1 (rf_faculty rfid),
                                    resp_message = ''Access denied: '' @ denial_reason,
                                    resp_denial_reason = denial_reason\<rparr>))))))))"

section \<open>Offline events (views\_api.esp32\_log\_offline\_access)\<close>

text \<open>
  The JSON body: its four fields as \<open>data.get\<close> reads them. A timestamp is null,
  text that is not a timestamp (the insert raises), or a point in time; a granted flag
  is \<open>None\<close> when the field is missing or null (the insert raises).
\<close>

datatype json_timestamp = TsNull | TsInvalid | TsValid datetime

record offline_event =
  ev_room_code :: "string option"
  ev_rfid_code :: "string option"
  ev_access_granted :: "bool option"
  ev_timestamp :: json_timestamp

datatype offline_response = OffLogged | OffServerError | OffInvalidRequest

definition open_time_of :: "json_timestamp \<Rightarrow> datetime option" where
  "open_time_of ts = (case ts of TsValid t \<Rightarrow> Some t | _ \<Rightarrow> None)"

definition esp32_log_offline_access :: "db \<Rightarrow> offline_event option \<Rightarrow> db \<times> offline_response" where
  "esp32_log_offline_access d body =
     (case body of
        None \<Rightarrow> (d, OffInvalidRequest)
      | Some data \<Rightarrow>
          (case ev_rfid_code data of
             None \<Rightarrow> (d, OffServerError)
           | Some rfid_code \<Rightarrow>
               (case find (\<lambda>r. rf_rfid_code r = rfid_code) (rfids d) of
                  None \<Rightarrow> (d, OffServerError)
                | Some rfid \<Rightarrow>
                    (case ev_room_code data of
                       None \<Rightarrow> (d, OffServerError)
                     | Some room_code \<Rightarrow>
                         (case find (\<lambda>r. r_code r = room_code) (rooms d) of
                            None \<Rightarrow> (d, OffServerError)
                          | Some room \<Rightarrow>
                              (let (system_settings, d1) = get_current_term d
                               in (case (faculty_full_name d1 (rf_faculty rfid),
                                         ev_access_granted data) of
                                     (Some full_name, Some granted) \<Rightarrow>
                                       (if ev_timestamp data = TsInvalid then (d1, OffServerError)
                                        else
                                          (d1\<lparr>logs := create_log
                                               \<lparr>t_id = 0, t_rfid = Some (rf_id rfid),
                                                t_room = Some (r_id room),
                                                t_faculty_name = full_name,
                                                t_room_code = room_code,
                                                t_rfid_code = rfid_code,
                                                t_academic_year = current_academic_year system_settings,
                                                t_semester = current_semester system_settings,
                                                t_open_time = open_time_of (ev_timestamp data),
                                                t_close_time = None,
                                                t_access_granted = granted,
                                                t_denial_reason = None,
                                                t_schedule = None\<rparr>
                                               (logs d1)\<rparr>,
                                           OffLogged))
                                   | _ \<Rightarrow> (d1, OffServerError))))))))"

section \<open>The ledger invariant\<close>

text \<open>The number of open granted logs of a credential, room and term.\<close>

definition open_count :: "transaction_log list \<Rightarrow> nat \<Rightarrow> nat \<Rightarrow> string \<Rightarrow> string \<Rightarrow> nat" where
  "open_count ls rfid_pk room_pk academic_year semester =
     length (filter (is_open_log rfid_pk room_pk academic_year semester) ls)"

section \<open>A keybox installation\<close>

text \<open>
  The scenario of the specification: badge RFID-001 of one faculty member for room 203,
  term 2025-2026 / 1st, one schedule window on Monday and Wednesday from 08:00 to 10:00,
  and one controller. 2025-09-01 (day 20332 of the epoch) is a Monday.
\<close>

definition room_203 :: room where
  "room_203 = \<lparr>r_id = 1, r_code = ''203'', r_is_active = True\<rparr>"

definition faculty_f :: faculty where
  "faculty_f = \<lparr>f_id = 1, f_school_id = ''F-001'', f_full_name = Some ''Faculty F'',
                 f_is_active = True\<rparr>"

definition badge_001 :: rfid_registration where
  "badge_001 = \<lparr>rf_id = 1, rf_rfid_code = ''RFID-001'', rf_faculty = 1, rf_room = 1,
                 rf_is_active = True\<rparr>"

definition clock :: "int \<Rightarrow> int \<Rightarrow> time_of_day" where
  "clock h m = (h * 3600 + m * 60) * usec_per_second"

definition window_mw :: room_schedule where
  "window_mw = \<lparr>s_id = 1, s_room = 1, s_semester = ''1st'',
                 s_day_of_week = ''monday,wednesday'',
                 s_start_time = clock 8 0, s_end_time = clock 10 0,
                 s_faculty = Some 1, s_is_active = True, s_updated_at = 100\<rparr>"

definition term_2025 :: system_settings where
  "term_2025 = \<lparr>current_academic_year = ''2025-2026'', current_semester = ''1st''\<rparr>"

definition esp32_1 :: esp32_device where
  "esp32_1 = \<lparr>d_id = 1, d_device_name = ''ESP32-1'', d_device_id = ''AA:BB:CC'',
               d_room = Some 1, d_ip_address = None, d_last_heartbeat = None,
               d_is_active = True, d_firmware_version = ''1.0'',
               d_created_at = 0, d_updated_at = 0\<rparr>"

definition keybox_db :: db where
  "keybox_db = \<lparr>rooms = [room_203], faculties = [faculty_f], rfids = [badge_001],
                 schedules = [window_mw], logs = [], settings = Some term_2025,
                 manual_logs = [], devices = [esp32_1]\<rparr>"

definition monday :: "int \<Rightarrow> int \<Rightarrow> datetime" where
  "monday h m = 20332 * usec_per_day + clock h m"

definition tuesday :: "int \<Rightarrow> int \<Rightarrow> datetime" where
  "tuesday h m = 20333 * usec_per_day + clock h m"


text \<open>A heartbeat of the controller with a new firmware version, and one without any.\<close>

definition heartbeat_upgrade :: heartbeat_request where
  "heartbeat_upgrade = \<lparr>get_device_id = Some ''AA:BB:CC'', get_firmware_version = Some ''1.1'',
     post_device_id = None, post_firmware_version = None, json_body = None,
     http_x_forwarded_for = Some ''10.0.0.7, 10.0.0.1'', remote_addr = Some ''127.0.0.1''\<rparr>"

definition heartbeat_plain :: heartbeat_request where
  "heartbeat_plain = \<lparr>get_device_id = None, get_firmware_version = None,
     post_device_id = None, post_firmware_version = None,
     json_body = Some (Some ''AA:BB:CC'', None),
     http_x_forwarded_for = None, remote_addr = Some ''10.0.0.7''\<rparr>"

text \<open>A staff member opens room 203 by hand.\<close>

definition open_203 :: trigger_request where
  "open_203 = \<lparr>tr_method = ''POST'', tr_room_id = Some 1, tr_action = Some ''open'',
                tr_notes = [], tr_user = 7\<rparr>"

definition open_203_log :: manual_door_log where
  "open_203_log = \<lparr>m_id = 1, m_room = 1, m_staff_user = Some 7, m_action = ''open'',
                    m_timestamp = monday 9 0, m_notes = []\<rparr>"

text \<open>The badge deactivated, the room deactivated, and the key of the badge out.\<close>

definition badge_off_db :: db where
  "badge_off_db = keybox_db\<lparr>rfids := [badge_001\<lparr>rf_is_active := False\<rparr>]\<rparr>"

definition all_off_db :: db where
  "all_off_db = keybox_db\<lparr>rfids := [badge_001\<lparr>rf_is_active := False\<rparr>],
                           rooms := [room_203\<lparr>r_is_active := False\<rparr>]\<rparr>"

definition borrow_log :: transaction_log where
  "borrow_log = \<lparr>t_id = 1, t_rfid = Some 1, t_room = Some 1, t_faculty_name = [],
                  t_room_code = [], t_rfid_code = [], t_academic_year = ''2025-2026'',
                  t_semester = ''1st'', t_open_time = Some (monday 8 30), t_close_time = None,
                  t_access_granted = True, t_denial_reason = None, t_schedule = Some 1\<rparr>"

definition key_out_db :: db where
  "key_out_db = keybox_db\<lparr>logs := [borrow_log]\<rparr>"

text \<open>An offline event of the badge at room 203, granted by the controller.\<close>

definition offline_grant :: offline_event where
  "offline_grant = \<lparr>ev_room_code = Some ''203'', ev_rfid_code = Some ''RFID-001'',
                     ev_access_granted = Some True,
                     ev_timestamp = TsValid (monday 9 0)\<rparr>"

definition offline_row :: "nat \<Rightarrow> transaction_log" where
  "offline_row pk = \<lparr>t_id = pk, t_rfid = Some 1, t_room = Some 1,
                      t_faculty_name = ''Faculty F'', t_room_code = ''203'',
                      t_rfid_code = ''RFID-001'', t_academic_year = ''2025-2026'',
                      t_semester = ''1st'', t_open_time = Some (monday 9 0),
                      t_close_time = None, t_access_granted = True,
                      t_denial_reason = None, t_schedule = None\<rparr>"

text \<open>A stand-in for \<open>parse_datetime\<close> on three inputs.\<close>

definition parse_sample :: "string \<Rightarrow> parsed" where
  "parse_sample s =
     (if s = ''1970-01-01T00:00:00'' then Parsed 0
      else if s = ''1970-01-01T00:00:01'' then Parsed 1000000
      else if s = ''2025-02-30T00:00:00'' then ParseRaises
      else ParseNone)"

text \<open>
  A second room, 204, whose stored close command carries a later time stamp than the
  command for room 203 that is about to be issued.
\<close>

definition room_204 :: room where
  "room_204 = \<lparr>r_id = 2, r_code = ''204'', r_is_active = True\<rparr>"

definition close_204_log :: manual_door_log where
  "close_204_log = \<lparr>m_id = 1, m_room = 2, m_staff_user = Some 7, m_action = ''close'',
                     m_timestamp = monday 9 0 + 2 * usec_per_second, m_notes = []\<rparr>"

definition two_room_db :: db where
  "two_room_db = keybox_db\<lparr>rooms := [room_203, room_204], manual_logs := [close_204_log]\<rparr>"

definition two_room_db_opened :: db where
  "two_room_db_opened
     = two_room_db\<lparr>manual_logs := [close_204_log, open_203_log\<lparr>m_id := 2\<rparr>]\<rparr>"

text \<open>The offline event with a time stamp that is not a timestamp.\<close>

definition offline_bad_time :: offline_event where
  "offline_bad_time = offline_grant\<lparr>ev_timestamp := TsInvalid\<rparr>"

section \<open>Facts about the query helpers\<close>

lemma first_desc_None: "first_desc key xs = None \<longleftrightarrow> xs = []"
  by (induction xs) (auto split: option.splits)

lemma first_desc_mem: "first_desc key xs = Some y \<Longrightarrow> y \<in> set xs"
  by (induction xs arbitrary: y) (auto split: option.splits if_splits)

lemma first_desc_snoc_newest:
  "\<forall>x \<in> set xs. key x < key c \<Longrightarrow> first_desc key (xs @ [c]) = Some c"
  by (induction xs) auto

lemma pk_eq:
  assumes "distinct (map key xs)" "x \<in> set xs" "y \<in> set xs" "key x = key y"
  shows "x = y"
  using assms by (meson distinct_map inj_on_eq_iff)

lemma filter_single_mem:
  assumes h: "filter P xs = [x]"
  shows "x \<in> set xs \<and> P x"
proof -
  have "x \<in> set (filter P xs)" by (simp add: h)
  then show ?thesis by simp
qed

lemma get_current_term_frame:
  assumes "get_current_term d = (ss, d1)"
  shows "rooms d1 = rooms d" "faculties d1 = faculties d" "rfids d1 = rfids d"
    "schedules d1 = schedules d" "logs d1 = logs d" "manual_logs d1 = manual_logs d"
    "devices d1 = devices d" "settings d1 = Some ss"
  using assms by (auto simp: get_current_term_def split: option.splits)

section \<open>Device liveness\<close>

text \<open>
  C6. A device is online exactly when it has a recorded heartbeat and the time since
  that heartbeat is at most 30 seconds; the bound is inclusive, and a device that never
  sent a heartbeat is offline.
\<close>

theorem is_online_iff:
  "is_online now dev =
     (\<exists>hb. d_last_heartbeat dev = Some hb \<and> now - hb \<le> 30 * usec_per_second)"
  by (cases "d_last_heartbeat dev") (auto simp: is_online_def timedelta_seconds_def)

text \<open>The boundary: online 29 and 30 seconds after the heartbeat, offline after 31.\<close>

lemma is_online_boundary:
  "is_online (hb + 29 * usec_per_second) (dev\<lparr>d_last_heartbeat := Some hb\<rparr>) \<and>
   is_online (hb + 30 * usec_per_second) (dev\<lparr>d_last_heartbeat := Some hb\<rparr>) \<and>
   \<not> is_online (hb + 31 * usec_per_second) (dev\<lparr>d_last_heartbeat := Some hb\<rparr>) \<and>
   \<not> is_online now (dev\<lparr>d_last_heartbeat := None\<rparr>)"
  by (simp add: is_online_def timedelta_seconds_def usec_per_second_def)

section \<open>Heartbeat\<close>

text \<open>
  C9, as stated, fails: when the heartbeat carries a new firmware version the whole row
  is saved, and the save also refreshes the modification timestamp \<open>updated_at\<close> of
  the device.
\<close>

theorem heartbeat_upgrade_touches_updated_at:
  "snd (esp32_heartbeat keybox_db (monday 9 0) heartbeat_upgrade)
     = HbReceived ''ESP32-1'' (Some 1) (monday 9 0) \<and>
   map d_updated_at (devices keybox_db) = [0] \<and>
   map d_updated_at (devices (fst (esp32_heartbeat keybox_db (monday 9 0) heartbeat_upgrade)))
     = [monday 9 0]"
  by code_simp

text \<open>
  C9, amended. A successful heartbeat changes one device row, the active device of the
  given hardware id, and nothing else in the database: it sets the last heartbeat to
  now and the address to the request's address; when a firmware version is supplied and
  differs from the stored one it writes that version and the modification timestamp
  \<open>updated_at\<close>, and otherwise leaves both as they were. Every other field of the
  row is unchanged. Primary keys are unique.
\<close>

theorem heartbeat_writes:
  assumes ok: "esp32_heartbeat d now rq = (d', HbReceived name rm ts)"
      and pk: "distinct (map d_id (devices d))"
  shows "\<exists>device.
           device \<in> set (devices d) \<and> d_is_active device \<and>
           Some (d_device_id device) = fst (request_device rq) \<and>
           d' = d\<lparr>devices := map (\<lambda>row. if row = device
               then (let fw = snd (request_device rq);
                         changed = (truthy fw \<and> the fw \<noteq> d_firmware_version row)
                     in row\<lparr>d_last_heartbeat := Some now,
                            d_ip_address := request_ip rq,
                            d_firmware_version := (if changed then the fw else d_firmware_version row),
                            d_updated_at := (if changed then now else d_updated_at row)\<rparr>)
               else row) (devices d)\<rparr>"
proof -
  obtain device_id fw where rd: "request_device rq = (device_id, fw)"
    by (cases "request_device rq")
  let ?hits = "filter (\<lambda>row. d_device_id row = the device_id \<and> d_is_active row) (devices d)"
  from ok rd have tr: "truthy device_id"
    by (auto simp: esp32_heartbeat_def split: if_splits)
  then obtain did where did: "device_id = Some did"
    by (cases device_id) (auto simp: truthy_def)
  from ok rd tr obtain device where hits: "?hits = [device]"
    by (auto simp: esp32_heartbeat_def Let_def split: list.splits if_splits)
  then have mem: "device \<in> set (devices d)" and act: "d_is_active device"
    and dev_id: "d_device_id device = the device_id"
    using filter_single_mem [OF hits] by auto
  have same: "\<And>row. row \<in> set (devices d) \<Longrightarrow> (d_id row = d_id device) = (row = device)"
    using pk_eq [OF pk _ mem] by auto
  let ?new = "\<lambda>row. if row = device
               then (let fw = snd (request_device rq);
                         changed = (truthy fw \<and> the fw \<noteq> d_firmware_version row)
                     in row\<lparr>d_last_heartbeat := Some now,
                            d_ip_address := request_ip rq,
                            d_firmware_version := (if changed then the fw else d_firmware_version row),
                            d_updated_at := (if changed then now else d_updated_at row)\<rparr>)
               else row"
  have "d' = d\<lparr>devices := map ?new (devices d)\<rparr>"
  proof (cases "truthy fw \<and> the fw \<noteq> d_firmware_version device")
    case True
    with ok rd tr hits have "d' = d\<lparr>devices := save_device now
        (device\<lparr>d_last_heartbeat := Some now, d_ip_address := request_ip rq,
                d_firmware_version := the fw\<rparr>) (devices d)\<rparr>"
      by (auto simp: esp32_heartbeat_def Let_def)
    also have "save_device now
        (device\<lparr>d_last_heartbeat := Some now, d_ip_address := request_ip rq,
                d_firmware_version := the fw\<rparr>) (devices d) = map ?new (devices d)"
      unfolding save_device_def using True same by (intro map_cong) (auto simp: rd Let_def)
    finally show ?thesis .
  next
    case False
    with ok rd tr hits have "d' = d\<lparr>devices := save_device_heartbeat_fields
        (device\<lparr>d_last_heartbeat := Some now, d_ip_address := request_ip rq\<rparr>) (devices d)\<rparr>"
      by (auto simp: esp32_heartbeat_def Let_def)
    also have "save_device_heartbeat_fields
        (device\<lparr>d_last_heartbeat := Some now, d_ip_address := request_ip rq\<rparr>) (devices d)
       = map ?new (devices d)"
      unfolding save_device_heartbeat_fields_def using False same
      by (intro map_cong) (auto simp: rd Let_def)
    finally show ?thesis .
  qed
  then show ?thesis using mem act dev_id did by (intro exI [of _ device]) (simp add: rd)
qed

theorem heartbeat_writes_witness:
  "esp32_heartbeat keybox_db (monday 9 0) heartbeat_plain
     = (keybox_db\<lparr>devices := [esp32_1\<lparr>d_last_heartbeat := Some (monday 9 0),
                                        d_ip_address := Some ''10.0.0.7''\<rparr>]\<rparr>,
        HbReceived ''ESP32-1'' (Some 1) (monday 9 0)) \<and>
   distinct (map d_id (devices keybox_db)) \<and>
   (\<exists>device.
      device \<in> set (devices keybox_db) \<and> d_is_active device \<and>
      Some (d_device_id device) = fst (request_device heartbeat_plain) \<and>
      keybox_db\<lparr>devices := [esp32_1\<lparr>d_last_heartbeat := Some (monday 9 0),
                                      d_ip_address := Some ''10.0.0.7''\<rparr>]\<rparr>
        = keybox_db\<lparr>devices := map (\<lambda>row. if row = device
               then (let fw = snd (request_device heartbeat_plain);
                         changed = (truthy fw \<and> the fw \<noteq> d_firmware_version row)
                     in row\<lparr>d_last_heartbeat := Some (monday 9 0),
                            d_ip_address := request_ip heartbeat_plain,
                            d_firmware_version := (if changed then the fw else d_firmware_version row),
                            d_updated_at := (if changed then (monday 9 0) else d_updated_at row)\<rparr>)
               else row) (devices keybox_db)\<rparr>)"
proof -
  have run: "esp32_heartbeat keybox_db (monday 9 0) heartbeat_plain
     = (keybox_db\<lparr>devices := [esp32_1\<lparr>d_last_heartbeat := Some (monday 9 0),
                                        d_ip_address := Some ''10.0.0.7''\<rparr>]\<rparr>,
        HbReceived ''ESP32-1'' (Some 1) (monday 9 0))"
    by code_simp
  have pk: "distinct (map d_id (devices keybox_db))"
    by code_simp
  from heartbeat_writes [OF run pk] run pk show ?thesis by blast
qed

section \<open>Command relay\<close>

lemma manual_trigger_api_reads: "fst (manual_trigger_api d now room_code) = d"
  by (auto simp: manual_trigger_api_def split: option.splits)

text \<open>
  C7. Once a staff request has appended a command for the room with code \<open>rc\<close> at
  time \<open>t0\<close> (every stored command of that room being older), a poll for \<open>rc\<close>
  no later than 5 seconds after \<open>t0\<close> returns that command, whatever commands other
  rooms hold, a poll later than that returns no pending command, and a poll never changes
  the database.
\<close>

theorem command_round_trip:
  assumes issue: "manual_door_trigger d t0 rq = (d1, TrCommandSent cmd)"
      and older: "\<forall>m \<in> set (manual_logs d).
                    room_code_of d (m_room m) = Some rc \<longrightarrow> m_timestamp m < t0"
      and code: "room_code_of d (m_room cmd) = Some rc" and rc: "rc \<noteq> []"
  shows "(now - t0 \<le> 5 * usec_per_second \<longrightarrow>
            manual_trigger_api d1 now (Some rc) = (d1, TgTrigger cmd)) \<and>
         (now - t0 > 5 * usec_per_second \<longrightarrow>
            manual_trigger_api d1 now (Some rc) = (d1, TgNoPending)) \<and>
         fst (manual_trigger_api d2 now2 rc2) = d2"
proof -
  from issue have d1: "d1 = d\<lparr>manual_logs := manual_logs d @ [cmd]\<rparr>" and ts: "m_timestamp cmd = t0"
    by (auto simp: manual_door_trigger_def Let_def split: if_splits option.splits prod.splits)
  have code1: "\<And>rid ms. room_code_of (d\<lparr>manual_logs := ms\<rparr>) rid = room_code_of d rid"
    by (simp add: room_code_of_def)
  let ?old = "filter (\<lambda>m. room_code_of d (m_room m) = Some rc \<and> now - timedelta_seconds 5 \<le> m_timestamp m)
                (manual_logs d)"
  have old_older: "\<forall>m \<in> set ?old. m_timestamp m < m_timestamp cmd"
    using older ts by auto
  have in_window: "manual_trigger_api d1 now (Some rc) = (d1, TgTrigger cmd)"
    if w: "now - t0 \<le> 5 * usec_per_second"
  proof -
    have "recent_commands d1 now rc = ?old @ [cmd]"
      using w code ts by (simp add: recent_commands_def code1 d1 timedelta_seconds_def Let_def)
    moreover have "first_desc m_timestamp (?old @ [cmd]) = Some cmd"
      using old_older by (rule first_desc_snoc_newest)
    ultimately show ?thesis using rc by (simp add: manual_trigger_api_def)
  qed
  have after_window: "manual_trigger_api d1 now (Some rc) = (d1, TgNoPending)"
    if w: "now - t0 > 5 * usec_per_second"
  proof -
    have "?old = []" using older w by (auto simp: filter_empty_conv timedelta_seconds_def)
    then have "recent_commands d1 now rc = []"
      using w ts by (simp add: recent_commands_def code1 d1 timedelta_seconds_def Let_def)
    then show ?thesis using rc by (simp add: manual_trigger_api_def)
  qed
  show ?thesis using in_window after_window manual_trigger_api_reads by blast
qed

theorem command_round_trip_witness:
  "manual_door_trigger two_room_db (monday 9 0) open_203
     = (two_room_db_opened, TrCommandSent (open_203_log\<lparr>m_id := 2\<rparr>)) \<and>
   manual_logs two_room_db = [close_204_log] \<and>
   room_code_of two_room_db (m_room close_204_log) = Some ''204'' \<and>
   monday 9 0 < m_timestamp close_204_log \<and>
   room_code_of two_room_db (m_room (open_203_log\<lparr>m_id := 2\<rparr>)) = Some ''203'' \<and>
   manual_trigger_api two_room_db_opened (monday 9 0 + 5 * usec_per_second) (Some ''203'')
     = (two_room_db_opened, TgTrigger (open_203_log\<lparr>m_id := 2\<rparr>)) \<and>
   manual_trigger_api two_room_db_opened (monday 9 0 + 5 * usec_per_second + 1) (Some ''203'')
     = (two_room_db_opened, TgNoPending)"
proof -
  have issue: "manual_door_trigger two_room_db (monday 9 0) open_203
     = (two_room_db_opened, TrCommandSent (open_203_log\<lparr>m_id := 2\<rparr>))"
    by code_simp
  have stored: "manual_logs two_room_db = [close_204_log]"
    by code_simp
  have other: "room_code_of two_room_db (m_room close_204_log) = Some ''204''"
    by code_simp
  have later: "monday 9 0 < m_timestamp close_204_log"
    by code_simp
  have older: "\<forall>m \<in> set (manual_logs two_room_db).
      room_code_of two_room_db (m_room m) = Some ''203'' \<longrightarrow> m_timestamp m < monday 9 0"
    unfolding stored using other by simp
  have code: "room_code_of two_room_db (m_room (open_203_log\<lparr>m_id := 2\<rparr>)) = Some ''203''"
    by code_simp
  have rc: "''203'' \<noteq> []"
    by simp
  note round_trip = command_round_trip [OF issue older code rc]
  have "monday 9 0 + 5 * usec_per_second - monday 9 0 \<le> 5 * usec_per_second"
    by simp
  with round_trip [of "monday 9 0 + 5 * usec_per_second"]
  have inside: "manual_trigger_api two_room_db_opened
       (monday 9 0 + 5 * usec_per_second) (Some ''203'')
     = (two_room_db_opened, TgTrigger (open_203_log\<lparr>m_id := 2\<rparr>))"
    by blast
  have "monday 9 0 + 5 * usec_per_second + 1 - monday 9 0 > 5 * usec_per_second"
    by simp
  with round_trip [of "monday 9 0 + 5 * usec_per_second + 1"]
  have outside: "manual_trigger_api two_room_db_opened
       (monday 9 0 + 5 * usec_per_second + 1) (Some ''203'')
     = (two_room_db_opened, TgNoPending)"
    by blast
  from issue stored other later code inside outside show ?thesis by blast
qed

section \<open>Staleness check\<close>

text \<open>
  C8. For a room code that names an active room, the check answers with the current
  term and a flag; when the last-sync text is present and parses to a point in time, the
  flag says whether some schedule window of that room and the current semester was
  modified strictly after it; when the text is missing, empty or does not parse, the
  flag is set.
\<close>

theorem check_updates_needs_update:
  assumes room: "find (\<lambda>r. r_code r = rc \<and> r_is_active r) (rooms d) = Some room"
      and rc: "rc \<noteq> []"
      and cur: "get_current_term d = (ss, d1)"
  shows "\<exists>needs_update.
           esp32_check_updates parse_datetime d (Some rc) last_sync
             = (d1, UpSuccess needs_update (current_semester ss) (current_academic_year ss)) \<and>
           (\<forall>s t. last_sync = Some s \<and> s \<noteq> [] \<and> parse_datetime s = Parsed t \<longrightarrow>
              needs_update = (\<exists>w \<in> set (schedules d).
                 s_room w = r_id room \<and> s_semester w = current_semester ss \<and> s_updated_at w > t)) \<and>
           (last_sync = None \<or> last_sync = Some [] \<or>
            (\<exists>s. last_sync = Some s \<and> parse_datetime s \<in> {ParseNone, ParseRaises})
              \<longrightarrow> needs_update)"
proof -
  have sch: "schedules d1 = schedules d"
    using get_current_term_frame [OF cur] by simp
  have nonempty: "\<And>t. (0 < length (updated_schedules d1 room (current_semester ss) t)) =
      (\<exists>w \<in> set (schedules d). s_room w = r_id room \<and> s_semester w = current_semester ss \<and> s_updated_at w > t)"
    by (auto simp: updated_schedules_def sch filter_empty_conv)
  show ?thesis
    using room rc cur nonempty
    by (cases last_sync; cases "parse_datetime (the last_sync)")
       (auto simp: esp32_check_updates_def truthy_def Let_def)
qed

theorem check_updates_needs_update_witness:
  "find (\<lambda>r. r_code r = ''203'' \<and> r_is_active r) (rooms keybox_db) = Some room_203 \<and>
   get_current_term keybox_db = (term_2025, keybox_db) \<and>
   parse_sample ''1970-01-01T00:00:01'' = Parsed 1000000 \<and>
   esp32_check_updates parse_sample keybox_db (Some ''203'') (Some ''1970-01-01T00:00:01'')
     = (keybox_db, UpSuccess False ''1st'' ''2025-2026'') \<and>
   esp32_check_updates parse_sample keybox_db (Some ''203'') None
     = (keybox_db, UpSuccess True ''1st'' ''2025-2026'')"
proof -
  have room: "find (\<lambda>r. r_code r = ''203'' \<and> r_is_active r) (rooms keybox_db) = Some room_203"
    by code_simp
  have rc: "''203'' \<noteq> []"
    by simp
  have cur: "get_current_term keybox_db = (term_2025, keybox_db)"
    by code_simp
  have parse: "parse_sample ''1970-01-01T00:00:01'' = Parsed 1000000"
    by code_simp
  have sem: "current_semester term_2025 = ''1st''" "current_academic_year term_2025 = ''2025-2026''"
    by (simp_all add: term_2025_def)
  have untouched: "\<not> (\<exists>w \<in> set (schedules keybox_db).
      s_room w = r_id room_203 \<and> s_semester w = current_semester term_2025 \<and> s_updated_at w > 1000000)"
    by (simp add: keybox_db_def window_mw_def)
  note check = check_updates_needs_update [OF room rc cur, of parse_sample]
  from check [of "Some ''1970-01-01T00:00:01''"] parse untouched
  have fresh: "esp32_check_updates parse_sample keybox_db (Some ''203'') (Some ''1970-01-01T00:00:01'')
     = (keybox_db, UpSuccess False ''1st'' ''2025-2026'')"
    unfolding sem by auto
  from check [of None]
  have absent: "esp32_check_updates parse_sample keybox_db (Some ''203'') None
     = (keybox_db, UpSuccess True ''1st'' ''2025-2026'')"
    unfolding sem by auto
  from room cur parse fresh absent show ?thesis by blast
qed

section \<open>Badge swipe: the branches of the handler\<close>

lemma swipe_rejected:
  assumes "\<not> truthy code \<or> \<not> truthy room_code \<or>
           find (\<lambda>r. rf_rfid_code r = the code) (rfids d) = None \<or>
           (\<exists>rfid. find (\<lambda>r. rf_rfid_code r = the code) (rfids d) = Some rfid \<and>
              (\<not> rf_is_active rfid \<or> find (\<lambda>r. r_code r = the room_code) (rooms d) = None \<or>
               (\<exists>room. find (\<lambda>r. r_code r = the room_code) (rooms d) = Some room \<and>
                  \<not> r_is_active room)))"
  shows "fst (rfid_swipe d now code room_code) = d \<and>
         \<not> resp_access_granted (snd (rfid_swipe d now code room_code))"
  using assms by (auto simp: rfid_swipe_def error_response_def split: option.splits)

lemma swipe_inactive:
  assumes "truthy code" "truthy room_code"
    and "find (\<lambda>r. rf_rfid_code r = the code) (rfids d) = Some rfid"
    and "find (\<lambda>r. r_code r = the room_code) (rooms d) = Some room"
    and "\<not> (rf_is_active rfid \<and> r_is_active room)"
  shows "fst (rfid_swipe d now code room_code) = d \<and>
         resp_http_status (snd (rfid_swipe d now code room_code)) = 403 \<and>
         \<not> resp_access_granted (snd (rfid_swipe d now code room_code)) \<and>
         resp_denial_reason (snd (rfid_swipe d now code room_code)) \<noteq> []"
  using assms by (auto simp: rfid_swipe_def error_response_def)

lemma swipe_return:
  assumes "truthy code" "truthy room_code"
    and "find (\<lambda>r. rf_rfid_code r = the code) (rfids d) = Some rfid" "rf_is_active rfid"
    and "find (\<lambda>r. r_code r = the room_code) (rooms d) = Some room" "r_is_active room"
    and "get_current_term d = (ss, d1)"
    and "matching_schedules_filtered d1 now room rfid (current_semester ss) \<noteq> []"
    and "open_log_of d1 rfid room (current_academic_year ss) (current_semester ss) = Some l"
  shows "rfid_swipe d now code room_code =
           (d1\<lparr>logs := save_log (l\<lparr>t_close_time := Some now\<rparr>) (logs d1)\<rparr>,
            \<lparr>resp_http_status = 200, resp_status = ''ok'',
             resp_access_granted = True, resp_action = ''return_key'',
             resp_faculty = faculty_full_name d1 (rf_faculty rfid),
             resp_message = ''Key returned successfully'',
             resp_denial_reason = []\<rparr>)"
  using assms by (simp add: rfid_swipe_def Let_def)

lemma swipe_borrow:
  assumes "truthy code" "truthy room_code"
    and "find (\<lambda>r. rf_rfid_code r = the code) (rfids d) = Some rfid" "rf_is_active rfid"
    and "find (\<lambda>r. r_code r = the room_code) (rooms d) = Some room" "r_is_active room"
    and "get_current_term d = (ss, d1)"
    and "matching_schedules_filtered d1 now room rfid (current_semester ss) = w # ws"
    and "open_log_of d1 rfid room (current_academic_year ss) (current_semester ss) = None"
  shows "rfid_swipe d now code room_code =
           (d1\<lparr>logs := create_log
                \<lparr>t_id = 0, t_rfid = Some (rf_id rfid), t_room = Some (r_id room),
                 t_faculty_name = [], t_room_code = [], t_rfid_code = [],
                 t_academic_year = current_academic_year ss, t_semester = current_semester ss,
                 t_open_time = Some now, t_close_time = None,
                 t_access_granted = True, t_denial_reason = None,
                 t_schedule = Some (s_id w)\<rparr>
                (logs d1)\<rparr>,
            \<lparr>resp_http_status = 200, resp_status = ''ok'',
             resp_access_granted = True, resp_action = ''borrow_key'',
             resp_faculty = faculty_full_name d1 (rf_faculty rfid),
             resp_message = ''Access granted - Key released'',
             resp_denial_reason = []\<rparr>)"
  using assms by (simp add: rfid_swipe_def Let_def)

lemma swipe_deny:
  assumes "truthy code" "truthy room_code"
    and "find (\<lambda>r. rf_rfid_code r = the code) (rfids d) = Some rfid" "rf_is_active rfid"
    and "find (\<lambda>r. r_code r = the room_code) (rooms d) = Some room" "r_is_active room"
    and "get_current_term d = (ss, d1)"
    and "matching_schedules_filtered d1 now room rfid (current_semester ss) = []"
  shows "rfid_swipe d now code room_code =
           (d1\<lparr>logs := create_log
                \<lparr>t_id = 0, t_rfid = Some (rf_id rfid), t_room = Some (r_id room),
                 t_faculty_name = [], t_room_code = [], t_rfid_code = [],
                 t_academic_year = current_academic_year ss, t_semester = current_semester ss,
                 t_open_time = Some now, t_close_time = None,
                 t_access_granted = False,
                 t_denial_reason = Some (denial_reason_of d1 now room rfid (current_semester ss)),
                 t_schedule = None\<rparr>
                (logs d1)\<rparr>,
            \<lparr>resp_http_status = 200, resp_status = ''error'',
             resp_access_granted = False, resp_action = [],
             resp_faculty = faculty_full_name d1 (rf_faculty rfid),
             resp_message = ''Access denied: '' @ denial_reason_of d1 now room rfid (current_semester ss),
             resp_denial_reason = denial_reason_of d1 now room rfid (current_semester ss)\<rparr>)"
  using assms by (simp add: rfid_swipe_def Let_def)


lemma matching_filtered_mem:
  "w \<in> set (matching_schedules_filtered d now room rfid semester) \<longleftrightarrow>
     w \<in> set (schedules d) \<and> s_room w = r_id room \<and> s_faculty w = Some (rf_faculty rfid) \<and>
     s_semester w = semester \<and> s_is_active w \<and> day_match now w \<and> time_match now w"
  by (auto simp: matching_schedules_filtered_def matching_schedules_def)

lemma matching_filtered_term:
  assumes "get_current_term d = (ss, d1)"
  shows "matching_schedules_filtered d1 now room rfid semester
           = matching_schedules_filtered d now room rfid semester"
    and "denial_reason_of d1 now room rfid semester = denial_reason_of d now room rfid semester"
    and "open_log_of d1 rfid room ay semester = open_log_of d rfid room ay semester"
  using get_current_term_frame [OF assms]
  by (simp_all add: matching_schedules_filtered_def matching_schedules_def denial_reason_of_def
        open_log_of_def)


lemma denial_reason_nonempty: "denial_reason_of d now room rfid semester \<noteq> []"
  by (simp add: denial_reason_of_def outside_scheduled_time_def no_schedule_today_def Let_def)


section \<open>The access decision\<close>



section \<open>Denied swipes\<close>

text \<open>
  C3, as stated, fails: a swipe with a deactivated badge is denied and no transaction
  log is written.
\<close>

theorem inactive_badge_not_logged:
  "find (\<lambda>r. rf_rfid_code r = ''RFID-001'') (rfids badge_off_db)
     = Some (badge_001\<lparr>rf_is_active := False\<rparr>) \<and>
   find (\<lambda>r. r_code r = ''203'') (rooms badge_off_db) = Some room_203 \<and>
   \<not> resp_access_granted
       (snd (rfid_swipe badge_off_db (monday 8 30) (Some ''RFID-001'') (Some ''203''))) \<and>
   resp_denial_reason
       (snd (rfid_swipe badge_off_db (monday 8 30) (Some ''RFID-001'') (Some ''203'')))
     = ''This card has been deactivated'' \<and>
   logs badge_off_db = [] \<and>
   logs (fst (rfid_swipe badge_off_db (monday 8 30) (Some ''RFID-001'') (Some ''203''))) = []"
  by code_simp

text \<open>
  C3, amended. For a swipe whose badge and room resolve: when both are active and the
  decision is a denial, exactly one transaction log is appended, with access not
  granted, no close time, the badge, the room, now as open time and the non-empty denial
  reason of the response, and nothing else changes but the creation of the settings row;
  when the badge or the room is inactive the swipe is refused with status 403 and a
  non-empty denial reason in the response, and the database is unchanged.
\<close>

theorem denied_swipe_logged:
  assumes code: "code \<noteq> []" and rc: "rc \<noteq> []"
      and rfid: "find (\<lambda>r. rf_rfid_code r = code) (rfids d) = Some rfid"
      and room: "find (\<lambda>r. r_code r = rc) (rooms d) = Some room"
      and cur: "get_current_term d = (ss, d1)"
      and denied: "\<not> resp_access_granted (snd (rfid_swipe d now (Some code) (Some rc)))"
  shows "(rf_is_active rfid \<and> r_is_active room \<longrightarrow>
            (\<exists>row. fst (rfid_swipe d now (Some code) (Some rc)) = d1\<lparr>logs := logs d @ [row]\<rparr> \<and>
               \<not> t_access_granted row \<and> t_close_time row = None \<and>
               t_rfid row = Some (rf_id rfid) \<and> t_room row = Some (r_id room) \<and>
               t_open_time row = Some now \<and>
               t_denial_reason row
                 = Some (resp_denial_reason (snd (rfid_swipe d now (Some code) (Some rc)))) \<and>
               resp_denial_reason (snd (rfid_swipe d now (Some code) (Some rc))) \<noteq> [])) \<and>
         (\<not> (rf_is_active rfid \<and> r_is_active room) \<longrightarrow>
            fst (rfid_swipe d now (Some code) (Some rc)) = d \<and>
            resp_http_status (snd (rfid_swipe d now (Some code) (Some rc))) = 403 \<and>
            resp_denial_reason (snd (rfid_swipe d now (Some code) (Some rc))) \<noteq> [])"
proof (cases "rf_is_active rfid \<and> r_is_active room")
  case False
  have tr: "truthy (Some code)" "truthy (Some rc)"
    using code rc by (simp_all add: truthy_def)
  have rfid': "find (\<lambda>r. rf_rfid_code r = the (Some code)) (rfids d) = Some rfid"
    and room': "find (\<lambda>r. r_code r = the (Some rc)) (rooms d) = Some room"
    using rfid room by simp_all
  from swipe_inactive [OF tr rfid' room' False, of now] False show ?thesis by blast
next
  case True
  let ?filtered = "matching_schedules_filtered d1 now room rfid (current_semester ss)"
  have tr: "truthy (Some code)" "truthy (Some rc)"
    using code rc by (simp_all add: truthy_def)
  have rfid': "find (\<lambda>r. rf_rfid_code r = the (Some code)) (rfids d) = Some rfid"
    and room': "find (\<lambda>r. r_code r = the (Some rc)) (rooms d) = Some room"
    using rfid room by simp_all
  from True have active: "rf_is_active rfid" "r_is_active room"
    by simp_all
  have empty: "?filtered = []"
  proof (rule ccontr)
    assume ne: "?filtered \<noteq> []"
    then obtain w ws where cons: "?filtered = w # ws"
      by (cases ?filtered) auto
    show False
    proof (cases "open_log_of d1 rfid room (current_academic_year ss) (current_semester ss)")
      case None
      from swipe_borrow [OF tr rfid' active(1) room' active(2) cur cons None] denied
      show False by simp
    next
      case (Some l)
      from swipe_return [OF tr rfid' active(1) room' active(2) cur ne Some] denied
      show False by simp
    qed
  qed
  note deny = swipe_deny [OF tr rfid' active(1) room' active(2) cur empty]
  have logs1: "logs d1 = logs d"
    using get_current_term_frame [OF cur] by simp
  let ?row = "\<lparr>t_id = fresh_id (map t_id (logs d)),
                t_rfid = Some (rf_id rfid), t_room = Some (r_id room),
                t_faculty_name = [], t_room_code = [], t_rfid_code = [],
                t_academic_year = current_academic_year ss,
                t_semester = current_semester ss, t_open_time = Some now,
                t_close_time = None, t_access_granted = False,
                t_denial_reason = Some (denial_reason_of d1 now room rfid (current_semester ss)),
                t_schedule = None\<rparr>"
  have "fst (rfid_swipe d now (Some code) (Some rc)) = d1\<lparr>logs := logs d @ [?row]\<rparr> \<and>
        \<not> t_access_granted ?row \<and> t_close_time ?row = None \<and>
        t_rfid ?row = Some (rf_id rfid) \<and> t_room ?row = Some (r_id room) \<and>
        t_open_time ?row = Some now \<and>
        t_denial_reason ?row
          = Some (resp_denial_reason (snd (rfid_swipe d now (Some code) (Some rc)))) \<and>
        resp_denial_reason (snd (rfid_swipe d now (Some code) (Some rc))) \<noteq> []"
    by (simp add: deny create_log_def logs1 denial_reason_nonempty)
  then show ?thesis
    using True by blast
qed

theorem denied_swipe_logged_witness:
  "find (\<lambda>r. rf_rfid_code r = ''RFID-001'') (rfids keybox_db) = Some badge_001 \<and>
   find (\<lambda>r. r_code r = ''203'') (rooms keybox_db) = Some room_203 \<and>
   get_current_term keybox_db = (term_2025, keybox_db) \<and>
   rf_is_active badge_001 \<and> r_is_active room_203 \<and>
   \<not> resp_access_granted
       (snd (rfid_swipe keybox_db (tuesday 8 30) (Some ''RFID-001'') (Some ''203''))) \<and>
   (\<exists>row. fst (rfid_swipe keybox_db (tuesday 8 30) (Some ''RFID-001'') (Some ''203''))
            = keybox_db\<lparr>logs := logs keybox_db @ [row]\<rparr> \<and>
          \<not> t_access_granted row \<and> t_close_time row = None \<and>
          t_rfid row = Some (rf_id badge_001) \<and> t_room row = Some (r_id room_203) \<and>
          t_open_time row = Some (tuesday 8 30) \<and>
          t_denial_reason row
            = Some (resp_denial_reason
                (snd (rfid_swipe keybox_db (tuesday 8 30) (Some ''RFID-001'') (Some ''203'')))) \<and>
          resp_denial_reason
            (snd (rfid_swipe keybox_db (tuesday 8 30) (Some ''RFID-001'') (Some ''203''))) \<noteq> [])"
proof -
  have code: "''RFID-001'' \<noteq> []" and rc: "''203'' \<noteq> []"
    by simp_all
  have rfid: "find (\<lambda>r. rf_rfid_code r = ''RFID-001'') (rfids keybox_db) = Some badge_001"
    by code_simp
  have room: "find (\<lambda>r. r_code r = ''203'') (rooms keybox_db) = Some room_203"
    by code_simp
  have active: "rf_is_active badge_001" "r_is_active room_203"
    by (simp_all add: badge_001_def room_203_def)
  have cur: "get_current_term keybox_db = (term_2025, keybox_db)"
    by code_simp
  have denied: "\<not> resp_access_granted
       (snd (rfid_swipe keybox_db (tuesday 8 30) (Some ''RFID-001'') (Some ''203'')))"
    by code_simp
  from denied_swipe_logged [OF code rc rfid room cur denied] active
  have "\<exists>row. fst (rfid_swipe keybox_db (tuesday 8 30) (Some ''RFID-001'') (Some ''203''))
            = keybox_db\<lparr>logs := logs keybox_db @ [row]\<rparr> \<and>
          \<not> t_access_granted row \<and> t_close_time row = None \<and>
          t_rfid row = Some (rf_id badge_001) \<and> t_room row = Some (r_id room_203) \<and>
          t_open_time row = Some (tuesday 8 30) \<and>
          t_denial_reason row
            = Some (resp_denial_reason
                (snd (rfid_swipe keybox_db (tuesday 8 30) (Some ''RFID-001'') (Some ''203'')))) \<and>
          resp_denial_reason
            (snd (rfid_swipe keybox_db (tuesday 8 30) (Some ''RFID-001'') (Some ''203''))) \<noteq> []"
    by blast
  with rfid room cur active denied show ?thesis by blast
qed

section \<open>Granted swipes and the ledger\<close>

lemma save_log_update:
  assumes pk: "distinct (map t_id ls)" and i: "i < length ls" and key: "t_id row = t_id (ls ! i)"
  shows "save_log row ls = ls[i := row]"
proof (rule nth_equalityI)
  show "length (save_log row ls) = length (ls[i := row])"
    by (simp add: save_log_def)
next
  fix j assume "j < length (save_log row ls)"
  then have j: "j < length ls"
    by (simp add: save_log_def)
  have "t_id (ls ! j) = t_id (ls ! i) \<longleftrightarrow> j = i"
    using nth_eq_iff_index_eq [OF pk, of j i] i j by simp
  then show "save_log row ls ! j = ls[i := row] ! j"
    using i j key by (auto simp: save_log_def nth_list_update)
qed

lemma first_desc_max:
  "first_desc key xs = Some y \<Longrightarrow> x \<in> set xs \<Longrightarrow> key x \<le> key y"
  by (induction xs arbitrary: y)
     (auto split: option.splits if_splits simp: first_desc_None dest: first_desc_mem)

lemma open_log_of_latest:
  assumes "open_log_of d rfid room ay sem = Some l"
      and "l' \<in> set (logs d)" "is_open_log (rf_id rfid) (r_id room) ay sem l'"
  shows "t_open_time l' \<le> t_open_time l"
  using first_desc_max [OF assms(1) [unfolded open_log_of_def], of l'] assms(2,3) by simp

lemma open_log_of_None:
  "open_log_of d rfid room ay sem = None \<longleftrightarrow>
     open_count (logs d) (rf_id rfid) (r_id room) ay sem = 0"
  by (simp add: open_log_of_def open_count_def first_desc_None)

lemma open_log_of_Some:
  assumes "open_log_of d rfid room ay sem = Some l"
  shows "l \<in> set (logs d) \<and> is_open_log (rf_id rfid) (r_id room) ay sem l"
  using first_desc_mem [OF assms [unfolded open_log_of_def]] by simp

text \<open>
  C4. For a granted swipe of a badge at a room in the current term (primary keys of the
  ledger being unique): if the ledger holds an open log of that badge, room and term,
  the handler closes exactly one row, an open log of that key and the latest opened of
  them, by setting its close time to now, adds no row and answers with the return action; if it holds none, the handler
  appends exactly one row, open, granted, opened now and carrying the schedule window
  that authorised the swipe, and answers with the borrow action.
\<close>

theorem granted_swipe_ledger:
  assumes code: "code \<noteq> []" and rc: "rc \<noteq> []"
      and rfid: "find (\<lambda>r. rf_rfid_code r = code) (rfids d) = Some rfid"
      and room: "find (\<lambda>r. r_code r = rc) (rooms d) = Some room"
      and cur: "get_current_term d = (ss, d1)"
      and granted: "resp_access_granted (snd (rfid_swipe d now (Some code) (Some rc)))"
      and pk: "distinct (map t_id (logs d))"
  shows "(0 < open_count (logs d) (rf_id rfid) (r_id room)
                (current_academic_year ss) (current_semester ss) \<longrightarrow>
            (\<exists>i l. i < length (logs d) \<and> logs d ! i = l \<and>
               is_open_log (rf_id rfid) (r_id room)
                 (current_academic_year ss) (current_semester ss) l \<and>
               (\<forall>l' \<in> set (logs d).
                  is_open_log (rf_id rfid) (r_id room)
                    (current_academic_year ss) (current_semester ss) l' \<longrightarrow>
                  t_open_time l' \<le> t_open_time l) \<and>
               fst (rfid_swipe d now (Some code) (Some rc))
                 = d1\<lparr>logs := (logs d)[i := l\<lparr>t_close_time := Some now\<rparr>]\<rparr>) \<and>
            resp_action (snd (rfid_swipe d now (Some code) (Some rc))) = ''return_key'') \<and>
         (open_count (logs d) (rf_id rfid) (r_id room)
                (current_academic_year ss) (current_semester ss) = 0 \<longrightarrow>
            (\<exists>w. w \<in> set (schedules d) \<and> s_room w = r_id room \<and>
               s_faculty w = Some (rf_faculty rfid) \<and> s_semester w = current_semester ss \<and>
               s_is_active w \<and> day_match now w \<and> time_match now w \<and>
               fst (rfid_swipe d now (Some code) (Some rc))
                 = d1\<lparr>logs := logs d @
                     [\<lparr>t_id = fresh_id (map t_id (logs d)),
                       t_rfid = Some (rf_id rfid), t_room = Some (r_id room),
                       t_faculty_name = [], t_room_code = [], t_rfid_code = [],
                       t_academic_year = current_academic_year ss,
                       t_semester = current_semester ss,
                       t_open_time = Some now, t_close_time = None,
                       t_access_granted = True, t_denial_reason = None,
                       t_schedule = Some (s_id w)\<rparr>]\<rparr>) \<and>
            resp_action (snd (rfid_swipe d now (Some code) (Some rc))) = ''borrow_key'')"
proof -
  let ?filtered = "matching_schedules_filtered d1 now room rfid (current_semester ss)"
  let ?ay = "current_academic_year ss" and ?sem = "current_semester ss"
  have tr: "truthy (Some code)" "truthy (Some rc)"
    using code rc by (simp_all add: truthy_def)
  have rfid': "find (\<lambda>r. rf_rfid_code r = the (Some code)) (rfids d) = Some rfid"
    and room': "find (\<lambda>r. r_code r = the (Some rc)) (rooms d) = Some room"
    using rfid room by simp_all
  have active: "rf_is_active rfid" "r_is_active room"
    using swipe_inactive [OF tr rfid' room', of now] granted by blast+
  have logs1: "logs d1 = logs d"
    using get_current_term_frame [OF cur] by simp
  have open1: "open_log_of d1 rfid room ?ay ?sem = open_log_of d rfid room ?ay ?sem"
    by (rule matching_filtered_term(3) [OF cur])
  have ne: "?filtered \<noteq> []"
  proof
    assume "?filtered = []"
    from swipe_deny [OF tr rfid' active(1) room' active(2) cur this] granted
    show False by simp
  qed
  then obtain w ws where cons: "?filtered = w # ws"
    by (cases ?filtered) auto
  then have "w \<in> set ?filtered"
    by simp
  then have w: "w \<in> set (schedules d) \<and> s_room w = r_id room \<and>
      s_faculty w = Some (rf_faculty rfid) \<and> s_semester w = ?sem \<and>
      s_is_active w \<and> day_match now w \<and> time_match now w"
    unfolding matching_filtered_term(1) [OF cur] matching_filtered_mem .
  show ?thesis
  proof (cases "open_log_of d rfid room ?ay ?sem")
    case None
    then have zero: "open_count (logs d) (rf_id rfid) (r_id room) ?ay ?sem = 0"
      by (simp add: open_log_of_None)
    from None have none1: "open_log_of d1 rfid room ?ay ?sem = None"
      by (simp add: open1)
    note borrow = swipe_borrow [OF tr rfid' active(1) room' active(2) cur cons none1]
    show ?thesis
      using zero w by (auto simp: borrow create_log_def logs1)
  next
    case (Some l)
    then have pos: "0 < open_count (logs d) (rf_id rfid) (r_id room) ?ay ?sem"
      using open_log_of_None [of d rfid room ?ay ?sem] by simp
    from Some have some1: "open_log_of d1 rfid room ?ay ?sem = Some l"
      by (simp add: open1)
    note return = swipe_return [OF tr rfid' active(1) room' active(2) cur ne some1]
    from open_log_of_Some [OF Some]
    have mem: "l \<in> set (logs d)" and op: "is_open_log (rf_id rfid) (r_id room) ?ay ?sem l"
      by simp_all
    from mem obtain i where i: "i < length (logs d)" "logs d ! i = l"
      by (auto simp: in_set_conv_nth)
    have "save_log (l\<lparr>t_close_time := Some now\<rparr>) (logs d)
            = (logs d)[i := l\<lparr>t_close_time := Some now\<rparr>]"
      using i by (intro save_log_update [OF pk]) simp_all
    then have closed: "fst (rfid_swipe d now (Some code) (Some rc))
                 = d1\<lparr>logs := (logs d)[i := l\<lparr>t_close_time := Some now\<rparr>]\<rparr>"
      by (simp add: return logs1)
    have latest: "\<forall>l' \<in> set (logs d).
        is_open_log (rf_id rfid) (r_id room) ?ay ?sem l' \<longrightarrow> t_open_time l' \<le> t_open_time l"
      using open_log_of_latest [OF Some] by blast
    have "\<exists>i l. i < length (logs d) \<and> logs d ! i = l \<and>
               is_open_log (rf_id rfid) (r_id room) ?ay ?sem l \<and>
               (\<forall>l' \<in> set (logs d).
                  is_open_log (rf_id rfid) (r_id room) ?ay ?sem l' \<longrightarrow>
                  t_open_time l' \<le> t_open_time l) \<and>
               fst (rfid_swipe d now (Some code) (Some rc))
                 = d1\<lparr>logs := (logs d)[i := l\<lparr>t_close_time := Some now\<rparr>]\<rparr>"
      using i op latest closed by blast
    moreover have "resp_action (snd (rfid_swipe d now (Some code) (Some rc))) = ''return_key''"
      by (simp add: return)
    ultimately show ?thesis
      using pos by simp
  qed
qed

theorem granted_swipe_ledger_witness:
  "find (\<lambda>r. rf_rfid_code r = ''RFID-001'') (rfids key_out_db) = Some badge_001 \<and>
   find (\<lambda>r. r_code r = ''203'') (rooms key_out_db) = Some room_203 \<and>
   get_current_term key_out_db = (term_2025, key_out_db) \<and>
   resp_access_granted
     (snd (rfid_swipe key_out_db (monday 9 0) (Some ''RFID-001'') (Some ''203''))) \<and>
   distinct (map t_id (logs key_out_db)) \<and>
   0 < open_count (logs key_out_db) (rf_id badge_001) (r_id room_203)
         (current_academic_year term_2025) (current_semester term_2025) \<and>
   (\<exists>i l. i < length (logs key_out_db) \<and> logs key_out_db ! i = l \<and>
      fst (rfid_swipe key_out_db (monday 9 0) (Some ''RFID-001'') (Some ''203''))
        = key_out_db\<lparr>logs := (logs key_out_db)[i := l\<lparr>t_close_time := Some (monday 9 0)\<rparr>]\<rparr>) \<and>
   resp_action (snd (rfid_swipe key_out_db (monday 9 0) (Some ''RFID-001'') (Some ''203'')))
     = ''return_key'' \<and>
   find (\<lambda>r. rf_rfid_code r = ''RFID-001'') (rfids keybox_db) = Some badge_001 \<and>
   find (\<lambda>r. r_code r = ''203'') (rooms keybox_db) = Some room_203 \<and>
   get_current_term keybox_db = (term_2025, keybox_db) \<and>
   resp_access_granted
     (snd (rfid_swipe keybox_db (monday 8 30) (Some ''RFID-001'') (Some ''203''))) \<and>
   distinct (map t_id (logs keybox_db)) \<and>
   open_count (logs keybox_db) (rf_id badge_001) (r_id room_203)
     (current_academic_year term_2025) (current_semester term_2025) = 0 \<and>
   resp_action (snd (rfid_swipe keybox_db (monday 8 30) (Some ''RFID-001'') (Some ''203'')))
     = ''borrow_key''"
proof -
  have code: "''RFID-001'' \<noteq> []" and rc: "''203'' \<noteq> []"
    by simp_all
  have rfid: "find (\<lambda>r. rf_rfid_code r = ''RFID-001'') (rfids key_out_db) = Some badge_001"
    by code_simp
  have room: "find (\<lambda>r. r_code r = ''203'') (rooms key_out_db) = Some room_203"
    by code_simp
  have cur: "get_current_term key_out_db = (term_2025, key_out_db)"
    by code_simp
  have granted: "resp_access_granted
     (snd (rfid_swipe key_out_db (monday 9 0) (Some ''RFID-001'') (Some ''203'')))"
    by code_simp
  have pk: "distinct (map t_id (logs key_out_db))"
    by code_simp
  have out: "0 < open_count (logs key_out_db) (rf_id badge_001) (r_id room_203)
         (current_academic_year term_2025) (current_semester term_2025)"
    by code_simp
  from granted_swipe_ledger [OF code rc rfid room cur granted pk] out
  have returned: "(\<exists>i l. i < length (logs key_out_db) \<and> logs key_out_db ! i = l \<and>
      fst (rfid_swipe key_out_db (monday 9 0) (Some ''RFID-001'') (Some ''203''))
        = key_out_db\<lparr>logs := (logs key_out_db)[i := l\<lparr>t_close_time := Some (monday 9 0)\<rparr>]\<rparr>) \<and>
     resp_action (snd (rfid_swipe key_out_db (monday 9 0) (Some ''RFID-001'') (Some ''203'')))
       = ''return_key''"
    by blast
  have rfid0: "find (\<lambda>r. rf_rfid_code r = ''RFID-001'') (rfids keybox_db) = Some badge_001"
    by code_simp
  have room0: "find (\<lambda>r. r_code r = ''203'') (rooms keybox_db) = Some room_203"
    by code_simp
  have cur0: "get_current_term keybox_db = (term_2025, keybox_db)"
    by code_simp
  have granted0: "resp_access_granted
     (snd (rfid_swipe keybox_db (monday 8 30) (Some ''RFID-001'') (Some ''203'')))"
    by code_simp
  have pk0: "distinct (map t_id (logs keybox_db))"
    by code_simp
  have home: "open_count (logs keybox_db) (rf_id badge_001) (r_id room_203)
     (current_academic_year term_2025) (current_semester term_2025) = 0"
    by code_simp
  from granted_swipe_ledger [OF code rc rfid0 room0 cur0 granted0 pk0] home
  have borrowed: "resp_action
      (snd (rfid_swipe keybox_db (monday 8 30) (Some ''RFID-001'') (Some ''203'')))
     = ''borrow_key''"
    by blast
  from rfid room cur granted pk out returned rfid0 room0 cur0 granted0 pk0 home borrowed
  show ?thesis by blast
qed

section \<open>The ledger invariant on the live path\<close>

lemma is_open_log_id [simp]:
  "is_open_log a b y s (row\<lparr>t_id := n\<rparr>) = is_open_log a b y s row"
  by (simp add: is_open_log_def)

lemma open_count_create:
  "open_count (create_log row ls) a b y s =
     open_count ls a b y s + (if is_open_log a b y s row then 1 else 0)"
  by (simp add: open_count_def create_log_def)

lemma filter_map_le:
  "(\<And>x. P (f x) \<Longrightarrow> P x) \<Longrightarrow> length (filter P (map f ls)) \<le> length (filter P ls)"
  by (induction ls) auto

lemma open_count_save_closed:
  "open_count (save_log (l\<lparr>t_close_time := Some now\<rparr>) ls) a b y s \<le> open_count ls a b y s"
  unfolding open_count_def save_log_def
  by (rule filter_map_le) (auto simp: is_open_log_def split: if_splits)

text \<open>
  The live swipe keeps the ledger invariant: a swipe never raises the number of open
  granted logs of a credential, room and term above one.
\<close>

lemma rfid_swipe_keeps_open_count:
  "open_count (logs (fst (rfid_swipe d now code room_code))) a b y s
     \<le> max 1 (open_count (logs d) a b y s)"
proof -
  let ?same = "fst (rfid_swipe d now code room_code) = d"
  consider (rejected) ?same
    | (decided) rfid room ss d1 where "truthy code" "truthy room_code"
        "find (\<lambda>r. rf_rfid_code r = the code) (rfids d) = Some rfid" "rf_is_active rfid"
        "find (\<lambda>r. r_code r = the room_code) (rooms d) = Some room" "r_is_active room"
        "get_current_term d = (ss, d1)"
    using swipe_rejected [of code room_code d now]
    by (cases "get_current_term d") (metis not_Some_eq)
  then show ?thesis
  proof cases
    case rejected
    then show ?thesis by simp
  next
    case decided
    let ?ay = "current_academic_year ss" and ?sem = "current_semester ss"
    let ?filtered = "matching_schedules_filtered d1 now room rfid ?sem"
    have logs1: "logs d1 = logs d"
      using get_current_term_frame [OF decided(7)] by simp
    show ?thesis
    proof (cases ?filtered)
      case Nil
      show ?thesis
        by (simp add: swipe_deny [OF decided Nil] open_count_create is_open_log_def logs1)
    next
      case (Cons w ws)
      show ?thesis
      proof (cases "open_log_of d1 rfid room ?ay ?sem")
        case None
        then have "open_count (logs d) (rf_id rfid) (r_id room) ?ay ?sem = 0"
          by (simp add: matching_filtered_term(3) [OF decided(7)] open_log_of_None)
        then show ?thesis
          by (auto simp: swipe_borrow [OF decided Cons None] open_count_create is_open_log_def
                logs1)
      next
        case (Some l)
        from Cons have ne: "?filtered \<noteq> []" by simp
        have "open_count (save_log (l\<lparr>t_close_time := Some now\<rparr>) (logs d)) a b y s
                \<le> open_count (logs d) a b y s"
          by (rule open_count_save_closed)
        then show ?thesis
          by (simp add: swipe_return [OF decided ne Some] logs1)
      qed
    qed
  qed
qed

section \<open>Offline events and the ledger\<close>

text \<open>
  C1. The live swipe keeps the invariant (\<open>rfid_swipe_keeps_open_count\<close>), the offline
  merge does not: merging two granted offline events of one badge at one room into an
  empty ledger leaves two open granted logs of that badge, room and term.
\<close>

theorem offline_merge_breaks_invariant:
  "open_count (logs keybox_db) 1 1 ''2025-2026'' ''1st'' = 0 \<and>
   snd (esp32_log_offline_access keybox_db (Some offline_grant)) = OffLogged \<and>
   open_count
     (logs (fst (esp32_log_offline_access
                   (fst (esp32_log_offline_access keybox_db (Some offline_grant)))
                   (Some offline_grant))))
     1 1 ''2025-2026'' ''1st'' = 2"
  by code_simp

text \<open>
  C2. The offline merge does no open/close matching: with the key of the badge out, a
  granted offline event appends a second open log, stamped with the controller's time,
  and leaves the open log open.
\<close>

theorem offline_merge_never_closes:
  "open_log_of key_out_db badge_001 room_203 ''2025-2026'' ''1st'' = Some borrow_log \<and>
   esp32_log_offline_access key_out_db (Some offline_grant)
     = (key_out_db\<lparr>logs := [borrow_log, offline_row 2]\<rparr>, OffLogged) \<and>
   t_close_time borrow_log = None \<and> t_close_time (offline_row 2) = None \<and>
   t_open_time (offline_row 2) = Some (monday 9 0)"
  by code_simp

text \<open>The live swipe at that time closes the open log and adds no row.\<close>

lemma live_swipe_closes_open_log:
  "logs (fst (rfid_swipe key_out_db (monday 9 0) (Some ''RFID-001'') (Some ''203'')))
     = [borrow_log\<lparr>t_close_time := Some (monday 9 0)\<rparr>]"
  by code_simp

text \<open>
  C10, as stated, fails: the badge code and the room code of an event resolve, and yet
  no transaction log is created, because the time stamp of the event is not a timestamp
  and the insert raises.
\<close>

theorem offline_merge_bad_payload_not_logged:
  "find (\<lambda>r. rf_rfid_code r = ''RFID-001'') (rfids keybox_db) = Some badge_001 \<and>
   find (\<lambda>r. r_code r = ''203'') (rooms keybox_db) = Some room_203 \<and>
   ev_rfid_code offline_bad_time = Some ''RFID-001'' \<and>
   ev_room_code offline_bad_time = Some ''203'' \<and>
   esp32_log_offline_access keybox_db (Some offline_bad_time) = (keybox_db, OffServerError) \<and>
   logs keybox_db = []"
  by code_simp

text \<open>
  C10, amended. The offline merge reads no active flag: whenever the badge code and the
  room code of an event resolve and the row can be stored (the faculty member of the
  badge has a name, the granted flag is present and the time stamp is null or a
  timestamp), it appends a transaction log, whatever the \<open>is_active\<close> flags of the
  badge and the room; when the row cannot be stored the merge answers with a server
  error and the ledger is unchanged. The live swipe of an inactive badge or at an
  inactive room writes no log.
\<close>

theorem offline_merge_ignores_active_flags:
  assumes rfid: "find (\<lambda>r. rf_rfid_code r = code) (rfids d) = Some rfid"
      and room: "find (\<lambda>r. r_code r = rc) (rooms d) = Some room"
      and cur: "get_current_term d = (ss, d1)"
      and ev: "ev_rfid_code data = Some code" "ev_room_code data = Some rc"
  shows "(\<forall>full_name granted.
            faculty_full_name d (rf_faculty rfid) = Some full_name \<and>
            ev_access_granted data = Some granted \<and> ev_timestamp data \<noteq> TsInvalid \<longrightarrow>
            esp32_log_offline_access d (Some data)
              = (d1\<lparr>logs := logs d @
                   [\<lparr>t_id = fresh_id (map t_id (logs d)),
                     t_rfid = Some (rf_id rfid), t_room = Some (r_id room),
                     t_faculty_name = full_name, t_room_code = rc, t_rfid_code = code,
                     t_academic_year = current_academic_year ss,
                     t_semester = current_semester ss,
                     t_open_time = open_time_of (ev_timestamp data), t_close_time = None,
                     t_access_granted = granted, t_denial_reason = None,
                     t_schedule = None\<rparr>]\<rparr>,
                 OffLogged)) \<and>
         (faculty_full_name d (rf_faculty rfid) = None \<or> ev_access_granted data = None \<or>
          ev_timestamp data = TsInvalid \<longrightarrow>
            esp32_log_offline_access d (Some data) = (d1, OffServerError) \<and>
            logs d1 = logs d) \<and>
         (code \<noteq> [] \<and> rc \<noteq> [] \<and> \<not> (rf_is_active rfid \<and> r_is_active room) \<longrightarrow>
            logs (fst (rfid_swipe d now (Some code) (Some rc))) = logs d)"
proof -
  have frame: "faculties d1 = faculties d" "logs d1 = logs d"
    using get_current_term_frame [OF cur] by simp_all
  then have name1: "faculty_full_name d1 (rf_faculty rfid) = faculty_full_name d (rf_faculty rfid)"
    by (simp add: faculty_full_name_def)
  have merged: "esp32_log_offline_access d (Some data)
           = (d1\<lparr>logs := logs d @
                [\<lparr>t_id = fresh_id (map t_id (logs d)),
                  t_rfid = Some (rf_id rfid), t_room = Some (r_id room),
                  t_faculty_name = full_name, t_room_code = rc, t_rfid_code = code,
                  t_academic_year = current_academic_year ss,
                  t_semester = current_semester ss,
                  t_open_time = open_time_of (ev_timestamp data), t_close_time = None,
                  t_access_granted = granted, t_denial_reason = None,
                  t_schedule = None\<rparr>]\<rparr>,
              OffLogged)"
    if "faculty_full_name d (rf_faculty rfid) = Some full_name"
      "ev_access_granted data = Some granted" "ev_timestamp data \<noteq> TsInvalid"
    for full_name granted
    using rfid room cur ev that
    by (simp add: esp32_log_offline_access_def create_log_def frame name1)
  have refused: "esp32_log_offline_access d (Some data) = (d1, OffServerError) \<and>
      logs d1 = logs d"
    if "faculty_full_name d (rf_faculty rfid) = None \<or> ev_access_granted data = None \<or>
        ev_timestamp data = TsInvalid"
    using rfid room cur ev that
    by (auto simp: esp32_log_offline_access_def frame name1 split: option.splits)
  have live: "logs (fst (rfid_swipe d now (Some code) (Some rc))) = logs d"
    if "code \<noteq> []" "rc \<noteq> []" "\<not> (rf_is_active rfid \<and> r_is_active room)"
  proof -
    have tr: "truthy (Some code)" "truthy (Some rc)"
      using that by (simp_all add: truthy_def)
    have rfid': "find (\<lambda>r. rf_rfid_code r = the (Some code)) (rfids d) = Some rfid"
      and room': "find (\<lambda>r. r_code r = the (Some rc)) (rooms d) = Some room"
      using rfid room by simp_all
    from swipe_inactive [OF tr rfid' room' that(3), of now] show ?thesis by simp
  qed
  from merged refused live show ?thesis by blast
qed

theorem offline_merge_ignores_active_flags_witness:
  "find (\<lambda>r. rf_rfid_code r = ''RFID-001'') (rfids all_off_db)
     = Some (badge_001\<lparr>rf_is_active := False\<rparr>) \<and>
   find (\<lambda>r. r_code r = ''203'') (rooms all_off_db) = Some (room_203\<lparr>r_is_active := False\<rparr>) \<and>
   get_current_term all_off_db = (term_2025, all_off_db) \<and>
   faculty_full_name all_off_db (rf_faculty (badge_001\<lparr>rf_is_active := False\<rparr>))
     = Some ''Faculty F'' \<and>
   ev_rfid_code offline_grant = Some ''RFID-001'' \<and>
   ev_room_code offline_grant = Some ''203'' \<and>
   ev_access_granted offline_grant = Some True \<and>
   ev_timestamp offline_grant \<noteq> TsInvalid \<and>
   esp32_log_offline_access all_off_db (Some offline_grant)
     = (all_off_db\<lparr>logs := [offline_row 1]\<rparr>, OffLogged) \<and>
   ev_rfid_code offline_bad_time = Some ''RFID-001'' \<and>
   ev_room_code offline_bad_time = Some ''203'' \<and>
   ev_timestamp offline_bad_time = TsInvalid \<and>
   esp32_log_offline_access all_off_db (Some offline_bad_time)
     = (all_off_db, OffServerError) \<and>
   logs (fst (rfid_swipe all_off_db (monday 9 0) (Some ''RFID-001'') (Some ''203''))) = []"
proof -
  have rfid: "find (\<lambda>r. rf_rfid_code r = ''RFID-001'') (rfids all_off_db)
     = Some (badge_001\<lparr>rf_is_active := False\<rparr>)"
    by code_simp
  have room: "find (\<lambda>r. r_code r = ''203'') (rooms all_off_db)
     = Some (room_203\<lparr>r_is_active := False\<rparr>)"
    by code_simp
  have cur: "get_current_term all_off_db = (term_2025, all_off_db)"
    by code_simp
  have name: "faculty_full_name all_off_db (rf_faculty (badge_001\<lparr>rf_is_active := False\<rparr>))
     = Some ''Faculty F''"
    by code_simp
  have ev: "ev_rfid_code offline_grant = Some ''RFID-001''"
    "ev_room_code offline_grant = Some ''203''"
    by (simp_all add: offline_grant_def)
  have payload: "ev_access_granted offline_grant = Some True"
    "ev_timestamp offline_grant \<noteq> TsInvalid"
    by (simp_all add: offline_grant_def)
  have bad_ev: "ev_rfid_code offline_bad_time = Some ''RFID-001''"
    "ev_room_code offline_bad_time = Some ''203''"
    by (simp_all add: offline_bad_time_def offline_grant_def)
  have bad_time: "ev_timestamp offline_bad_time = TsInvalid"
    by (simp add: offline_bad_time_def)
  have off: "\<not> (rf_is_active (badge_001\<lparr>rf_is_active := False\<rparr>) \<and>
                r_is_active (room_203\<lparr>r_is_active := False\<rparr>))"
    by simp
  have codes: "''RFID-001'' \<noteq> []" "''203'' \<noteq> []"
    by simp_all
  have row: "(all_off_db\<lparr>logs := logs all_off_db @
                [\<lparr>t_id = fresh_id (map t_id (logs all_off_db)),
                  t_rfid = Some (rf_id (badge_001\<lparr>rf_is_active := False\<rparr>)),
                  t_room = Some (r_id (room_203\<lparr>r_is_active := False\<rparr>)),
                  t_faculty_name = ''Faculty F'', t_room_code = ''203'',
                  t_rfid_code = ''RFID-001'',
                  t_academic_year = current_academic_year term_2025,
                  t_semester = current_semester term_2025,
                  t_open_time = open_time_of (ev_timestamp offline_grant), t_close_time = None,
                  t_access_granted = True, t_denial_reason = None,
                  t_schedule = None\<rparr>]\<rparr>,
              OffLogged)
      = (all_off_db\<lparr>logs := [offline_row 1]\<rparr>, OffLogged)"
    by code_simp
  have empty: "logs all_off_db = []"
    by code_simp
  note merge = offline_merge_ignores_active_flags [OF rfid room cur ev, of "monday 9 0"]
  from merge name payload
  have "esp32_log_offline_access all_off_db (Some offline_grant)
     = (all_off_db\<lparr>logs := logs all_off_db @
                [\<lparr>t_id = fresh_id (map t_id (logs all_off_db)),
                  t_rfid = Some (rf_id (badge_001\<lparr>rf_is_active := False\<rparr>)),
                  t_room = Some (r_id (room_203\<lparr>r_is_active := False\<rparr>)),
                  t_faculty_name = ''Faculty F'', t_room_code = ''203'',
                  t_rfid_code = ''RFID-001'',
                  t_academic_year = current_academic_year term_2025,
                  t_semester = current_semester term_2025,
                  t_open_time = open_time_of (ev_timestamp offline_grant), t_close_time = None,
                  t_access_granted = True, t_denial_reason = None,
                  t_schedule = None\<rparr>]\<rparr>,
              OffLogged)"
    by blast
  then have logged: "esp32_log_offline_access all_off_db (Some offline_grant)
     = (all_off_db\<lparr>logs := [offline_row 1]\<rparr>, OffLogged)"
    by (rule trans [OF _ row])
  from offline_merge_ignores_active_flags [OF rfid room cur bad_ev, of "monday 9 0"] bad_time
  have refused: "esp32_log_offline_access all_off_db (Some offline_bad_time)
     = (all_off_db, OffServerError)"
    by blast
  from merge off codes
  have "logs (fst (rfid_swipe all_off_db (monday 9 0) (Some ''RFID-001'') (Some ''203'')))
          = logs all_off_db"
    by blast
  then have live: "logs (fst (rfid_swipe all_off_db (monday 9 0) (Some ''RFID-001'') (Some ''203''))) = []"
    by (simp only: empty)
  from rfid room cur name ev payload logged bad_ev bad_time refused live
  show ?thesis by blast
qed

end
